theory Spec2Isabelle
  imports Main "HOL-Library.Word" "HOL-Library.Sublist"
begin

unbundle bit_operations_syntax

section \<open>Data model\<close>

text \<open>
  A shallow embedding of \<^verbatim>\<open>src/WebSocketServer.cpp\<close> and
  \<^verbatim>\<open>src/utils/Platform.cpp\<close>. Member functions of \<^verbatim>\<open>WebSocketServer\<close> take the
  server object and return it updated. Everything the server does to the outside (frames
  handed to the transport, closes, log lines, Qt signals, mutex operations) is appended to
  a trace, in program order.
\<close>

text \<open>\<^verbatim>\<open>websocketpp::connection_hdl\<close>: an opaque token, totally ordered by
  \<^verbatim>\<open>std::owner_less\<close> (the order of the keys of \<^verbatim>\<open>_sessions\<close>).\<close>

type_synonym handle = nat

type_synonym u64 = "64 word"

datatype WebSocketEncoding = Json | MsgPack

text \<open>
  Modelled from the spec: the class \<^verbatim>\<open>WebSocketSession\<close> (its header and
  implementation are not among the sources). The fields are the ones of the spec's data
  model, read and written through the accessors the server calls.
\<close>

record WebSocketSession =
  remoteAddress :: string
  connectedAt :: u64
  incomingMessages :: u64
  outgoingMessages :: u64
  encoding :: WebSocketEncoding
  challenge :: string
  isIdentified :: bool
  eventSubscriptions :: u64

text \<open>
  Modelled from the spec: the default constructor of \<^verbatim>\<open>WebSocketSession\<close>, which is
  not among the sources. The spec has a session not identified at creation, with no
  event subscription, and with the Json encoding when no \<^verbatim>\<open>Content-Type\<close> names
  another; the counters and the connection time are taken to start at zero, and the
  strings are empty, as a default-constructed \<^verbatim>\<open>std::string\<close> is.
\<close>

definition WebSocketSession_default :: WebSocketSession where
  "WebSocketSession_default =
     \<lparr> remoteAddress = [], connectedAt = 0, incomingMessages = 0, outgoingMessages = 0,
       encoding = Json, challenge = [], isIdentified = False, eventSubscriptions = 0 \<rparr>"

text \<open>\<^verbatim>\<open>nlohmann::json\<close> values. An object is kept as an association list with unique
  keys.\<close>

datatype json =
    JNull
  | JBool bool
  | JInt int
  | JString string
  | JArray "json list"
  | JObject "(string \<times> json) list"

text \<open>\<^verbatim>\<open>j[key] = v\<close> on an object under construction: the key is added, or its value
  replaced.\<close>

fun obj_set :: "string \<Rightarrow> json \<Rightarrow> (string \<times> json) list \<Rightarrow> (string \<times> json) list" where
  "obj_set k v [] = [(k, v)]"
| "obj_set k v ((k', v') # kvs) =
     (if k = k' then (k, v) # kvs else (k', v') # obj_set k v kvs)"

fun is_object :: "json \<Rightarrow> bool" where
  "is_object (JObject _) = True"
| "is_object _ = False"

datatype opcode = text_frame | binary_frame

text \<open>The close codes the server passes to the transport; the last two are
  \<^verbatim>\<open>WebSocketCloseCode\<close> values.\<close>

datatype close_status = going_away | InvalidContentType | SessionInvalidated

datatype log_level = LOG_INFO | LOG_WARNING | LOG_ERROR

text \<open>What the transport knows of one connection (\<^verbatim>\<open>get_con_from_hdl\<close>): the remote
  endpoint, the value of the \<^verbatim>\<open>Content-Type\<close> request header (empty when the header is
  absent) and the local close code.\<close>

record connection =
  remote_endpoint :: string
  content_type :: string
  local_close_code :: "16 word"

record WebSocketSessionState =
  state_hdl :: "handle option"
  state_remoteAddress :: string
  state_connectedAt :: u64
  state_incomingMessages :: u64
  state_outgoingMessages :: u64

text \<open>
  The trace. \<open>Send\<close>, \<open>PauseReading\<close> and \<open>Close\<close> are the calls
  \<^verbatim>\<open>_server.send\<close>, \<^verbatim>\<open>_server.pause_reading\<close> and \<^verbatim>\<open>_server.close\<close> with the
  error code they gave back (\<open>None\<close>: success); \<open>ConnClose\<close> is
  \<^verbatim>\<open>conn->close\<close>; \<open>Lock\<close> and \<open>Unlock\<close> are the operations on
  \<^verbatim>\<open>_sessionMutex\<close>.
\<close>

datatype event =
    Lock
  | Unlock
  | Send handle opcode string "string option"
  | PauseReading handle "string option"
  | Close handle close_status string "string option"
  | ConnClose handle close_status string
  | StopListening
  | Listen "16 word" "string option"
  | StartAccept
  | ThreadStart
  | WaitForDone
  | Sleep nat
  | Join
  | Blog log_level string
  | ClientDisconnected WebSocketSessionState "16 word"
  | IdentifiedClientDisconnected WebSocketSessionState "16 word"

text \<open>A \<^verbatim>\<open>QHostAddress\<close>, by what \<^verbatim>\<open>GetLocalAddress\<close> asks of it; the first two
  fields are the comparisons with \<^verbatim>\<open>QHostAddress::LocalHost\<close> and
  \<^verbatim>\<open>QHostAddress::LocalHostIPv6\<close>.\<close>

record host_address =
  toString :: string
  isLocalHost :: bool
  isLocalHostIPv6 :: bool
  isLoopback :: bool
  isLinkLocal :: bool
  isNull :: bool

text \<open>
  What the server is linked against and does not define: the two serialisers of
  \<^verbatim>\<open>nlohmann::json\<close>, the version macros of \<^verbatim>\<open>plugin-macros.generated.h\<close>, the
  error code each transport call on a connection gives back,
  \<^verbatim>\<open>Utils::Crypto::GenerateSecret\<close>, \<^verbatim>\<open>QNetworkInterface::allAddresses()\<close>, and
  \<^verbatim>\<open>std::sort\<close> on the vector of addresses with their priorities (it is not stable:
  the order it leaves among equal priorities is its own).
\<close>

record platform =
  json_dump :: "json \<Rightarrow> string"
  json_to_msgpack :: "json \<Rightarrow> string"
  OBS_WEBSOCKET_VERSION :: json
  OBS_WEBSOCKET_RPC_VERSION :: json
  send_error :: "handle \<Rightarrow> string option"
  pause_reading_error :: "handle \<Rightarrow> string option"
  close_error :: "handle \<Rightarrow> string option"
  GenerateSecret :: "string \<Rightarrow> string \<Rightarrow> string"
  allAddresses :: "host_address list"
  std_sort :: "(string \<times> 8 word) list \<Rightarrow> (string \<times> 8 word) list"

text \<open>The configuration \<^verbatim>\<open>GetConfig()\<close> returns, by the fields \<^verbatim>\<open>Start\<close> reads.\<close>

record Config =
  ServerPort :: "16 word"
  ServerPassword :: string
  DebugEnabled :: bool
  AuthRequired :: bool

text \<open>A task queued on \<^verbatim>\<open>_threadPool\<close>: the captured arguments of one
  \<^verbatim>\<open>BroadcastEvent\<close> call.\<close>

record broadcast_task =
  requiredIntent :: u64
  eventType :: string
  eventData :: json

text \<open>The members of \<^verbatim>\<open>WebSocketServer\<close>. \<open>sessions\<close> is the \<^verbatim>\<open>std::map\<close>
  \<^verbatim>\<open>_sessions\<close>, in key order; \<open>listening\<close> is \<^verbatim>\<open>_server.is_listening()\<close>.\<close>

record server =
  sessions :: "(handle \<times> WebSocketSession) list"
  listening :: bool
  serverPort :: "16 word"
  serverPassword :: string
  debugEnabled :: bool
  authenticationRequired :: bool
  authenticationSalt :: string
  authenticationSecret :: string
  threadPool :: "broadcast_task list"
  serverThread :: bool
  trace :: "event list"

section \<open>The session table\<close>

text \<open>\<^verbatim>\<open>_sessions[hdl]\<close>: a missing key is inserted with a default-constructed
  session.\<close>

definition subscript :: "handle \<Rightarrow> (handle \<times> WebSocketSession) list \<Rightarrow> (handle \<times> WebSocketSession) list" where
  "subscript hdl tbl =
     (case map_of tbl hdl of
        None \<Rightarrow> insort_key fst (hdl, WebSocketSession_default) tbl
      | Some _ \<Rightarrow> tbl)"

text \<open>A setter called on the reference \<^verbatim>\<open>_sessions[hdl]\<close> gave.\<close>

definition modify :: "handle \<Rightarrow> (WebSocketSession \<Rightarrow> WebSocketSession) \<Rightarrow> (handle \<times> WebSocketSession) list \<Rightarrow> (handle \<times> WebSocketSession) list" where
  "modify hdl f tbl = map (\<lambda>p. if fst p = hdl then (fst p, f (snd p)) else p) tbl"

text \<open>\<^verbatim>\<open>_sessions.erase(hdl)\<close>.\<close>

definition erase :: "handle \<Rightarrow> (handle \<times> WebSocketSession) list \<Rightarrow> (handle \<times> WebSocketSession) list" where
  "erase hdl tbl = filter (\<lambda>p. fst p \<noteq> hdl) tbl"

definition emit :: "event \<Rightarrow> server \<Rightarrow> server" where
  "emit e st = st\<lparr>trace := trace st @ [e]\<rparr>"

definition blog :: "log_level \<Rightarrow> string \<Rightarrow> server \<Rightarrow> server" where
  "blog lvl msg st = emit (Blog lvl msg) st"

definition with_session :: "handle \<Rightarrow> (WebSocketSession \<Rightarrow> WebSocketSession) \<Rightarrow> server \<Rightarrow> server" where
  "with_session hdl f st = st\<lparr>sessions := modify hdl f (sessions st)\<rparr>"

text \<open>\<^verbatim>\<open>_server.send(hdl, payload, opcode, errorCode)\<close>: the call and the error code
  it leaves in \<^verbatim>\<open>errorCode\<close>.\<close>

definition server_send :: "platform \<Rightarrow> handle \<Rightarrow> string \<Rightarrow> opcode \<Rightarrow> server \<Rightarrow> string option \<times> server" where
  "server_send pf hdl payload opc st =
     (send_error pf hdl, emit (Send hdl opc payload (send_error pf hdl)) st)"

section \<open>Connection handlers\<close>

text \<open>The \<^verbatim>\<open>Hello\<close> object of \<^verbatim>\<open>onOpen\<close>; \<open>sessionChallenge\<close> is what
  \<^verbatim>\<open>Utils::Crypto::GenerateSalt()\<close> returned.\<close>

definition helloMessage :: "platform \<Rightarrow> server \<Rightarrow> string \<Rightarrow> json" where
  "helloMessage pf st sessionChallenge =
     (let h0 = obj_set ''messageType'' (JString ''Hello'') [];
          h1 = obj_set ''obsWebSocketVersion'' (OBS_WEBSOCKET_VERSION pf) h0;
          h2 = obj_set ''rpcVersion'' (OBS_WEBSOCKET_RPC_VERSION pf) h1
      in if authenticationRequired st
         then JObject (obj_set ''authentication''
                (JObject (obj_set ''salt'' (JString (authenticationSalt st))
                   (obj_set ''challenge'' (JString sessionChallenge) []))) h2)
         else JObject h2)"

text \<open>The session a reference into \<^verbatim>\<open>_sessions\<close> denotes.\<close>

definition session_at :: "handle \<Rightarrow> server \<Rightarrow> WebSocketSession" where
  "session_at hdl st =
     (case map_of (sessions st) hdl of Some s \<Rightarrow> s | None \<Rightarrow> WebSocketSession_default)"

text \<open>The second half of \<^verbatim>\<open>onOpen\<close>, from \<^verbatim>\<open>// Build `Hello`\<close> on.\<close>

definition send_hello :: "platform \<Rightarrow> handle \<Rightarrow> string \<Rightarrow> server \<Rightarrow> server" where
  "send_hello pf hdl salt st =
     (let st1 = (if authenticationRequired st
                 then with_session hdl (\<lambda>s. s\<lparr>challenge := salt\<rparr>) st else st);
          hello = helloMessage pf st1 salt
      in case encoding (session_at hdl st1) of
           Json \<Rightarrow> snd (server_send pf hdl (json_dump pf hello) text_frame st1)
         | MsgPack \<Rightarrow> snd (server_send pf hdl (json_to_msgpack pf hello) binary_frame st1))"

text \<open>
  \<^verbatim>\<open>WebSocketServer::onOpen\<close>. \<open>conn\<close> is the connection of \<open>hdl\<close>, \<open>now\<close> is
  \<^verbatim>\<open>QDateTime::currentSecsSinceEpoch()\<close> and \<open>salt\<close> the value a call of
  \<^verbatim>\<open>GenerateSalt\<close> returns.
\<close>

definition onOpen :: "platform \<Rightarrow> handle \<Rightarrow> connection \<Rightarrow> u64 \<Rightarrow> string \<Rightarrow> server \<Rightarrow> server" where
  "onOpen pf hdl conn now salt st =
     (let st1 = emit Unlock ((emit Lock st)\<lparr>sessions := subscript hdl (sessions st)\<rparr>);
          st2 = with_session hdl (\<lambda>s. s\<lparr>remoteAddress := remote_endpoint conn\<rparr>) st1;
          st3 = with_session hdl (\<lambda>s. s\<lparr>connectedAt := now\<rparr>) st2;
          contentType = content_type conn
      in if contentType = [] then send_hello pf hdl salt st3
         else if contentType = ''application/json''
         then send_hello pf hdl salt (with_session hdl (\<lambda>s. s\<lparr>encoding := Json\<rparr>) st3)
         else if contentType = ''application/msgpack''
         then send_hello pf hdl salt (with_session hdl (\<lambda>s. s\<lparr>encoding := MsgPack\<rparr>) st3)
         else emit (ConnClose hdl InvalidContentType
                ''Your HTTP `Content-Type` header specifies an invalid encoding type.'') st3)"

text \<open>\<^verbatim>\<open>WebSocketServer::onClose\<close>.\<close>

definition onClose :: "handle \<Rightarrow> connection \<Rightarrow> server \<Rightarrow> server" where
  "onClose hdl conn st =
     (let st1 = (emit Lock st)\<lparr>sessions := subscript hdl (sessions st)\<rparr>;
          session = session_at hdl st1;
          st2 = emit Unlock (st1\<lparr>sessions := erase hdl (sessions st1)\<rparr>);
          state = \<lparr> state_hdl = None,
                    state_remoteAddress = remoteAddress session,
                    state_connectedAt = connectedAt session,
                    state_incomingMessages = incomingMessages session,
                    state_outgoingMessages = outgoingMessages session \<rparr>;
          st3 = emit (ClientDisconnected state (local_close_code conn)) st2
      in if isIdentified session
         then emit (IdentifiedClientDisconnected state (local_close_code conn)) st3
         else st3)"

text \<open>\<^verbatim>\<open>WebSocketServer::onMessage\<close>: the body is the empty statement.\<close>

definition onMessage :: "handle \<Rightarrow> string \<Rightarrow> server \<Rightarrow> server" where
  "onMessage hdl message st = st"

section \<open>Broadcast\<close>

text \<open>The envelope a broadcast task builds.\<close>

definition eventMessage :: "broadcast_task \<Rightarrow> json" where
  "eventMessage t =
     (let m0 = obj_set ''messageType'' (JString ''Event'') [];
          m1 = obj_set ''eventType'' (JString (eventType t)) m0
      in if is_object (eventData t)
         then JObject (obj_set ''eventData'' (eventData t) m1)
         else JObject m1)"

text \<open>
  The loop over \<^verbatim>\<open>_sessions\<close> in the task. The accumulator holds the two lazily
  computed payloads \<^verbatim>\<open>messageJson\<close> and \<^verbatim>\<open>messageMsgPack\<close> and the server. The
  error code a send leaves is never read.
\<close>

fun broadcast_loop :: "platform \<Rightarrow> u64 \<Rightarrow> json \<Rightarrow> (handle \<times> WebSocketSession) list
    \<Rightarrow> string \<times> string \<times> server \<Rightarrow> string \<times> string \<times> server" where
  "broadcast_loop pf r msg [] acc = acc"
| "broadcast_loop pf r msg ((hdl, session) # rest) (messageJson, messageMsgPack, st) =
     (if \<not> isIdentified session
      then broadcast_loop pf r msg rest (messageJson, messageMsgPack, st)
      else if (eventSubscriptions session AND r) \<noteq> 0
      then (case encoding session of
              Json \<Rightarrow>
                (let messageJson' =
                       (if messageJson = [] then json_dump pf msg else messageJson)
                 in broadcast_loop pf r msg rest
                      (messageJson', messageMsgPack,
                       snd (server_send pf hdl messageJson' text_frame st)))
            | MsgPack \<Rightarrow>
                (let messageMsgPack' =
                       (if messageMsgPack = [] then json_to_msgpack pf msg else messageMsgPack)
                 in broadcast_loop pf r msg rest
                      (messageJson, messageMsgPack',
                       snd (server_send pf hdl messageMsgPack' binary_frame st))))
      else broadcast_loop pf r msg rest (messageJson, messageMsgPack, st))"

text \<open>The body of the lambda \<^verbatim>\<open>BroadcastEvent\<close> hands to the pool.\<close>

definition run_task :: "platform \<Rightarrow> broadcast_task \<Rightarrow> server \<Rightarrow> server" where
  "run_task pf t st =
     (let st1 = emit Lock st;
          st2 = snd (snd (broadcast_loop pf (requiredIntent t) (eventMessage t)
                            (sessions st1) ([], [], st1)))
      in emit Unlock st2)"

text \<open>\<^verbatim>\<open>WebSocketServer::BroadcastEvent\<close>: \<^verbatim>\<open>QtConcurrent::run\<close> queues the task.\<close>

definition BroadcastEvent :: "u64 \<Rightarrow> string \<Rightarrow> json \<Rightarrow> server \<Rightarrow> server" where
  "BroadcastEvent r ty data st =
     st\<lparr>threadPool := threadPool st @ [\<lparr>requiredIntent = r, eventType = ty, eventData = data\<rparr>]\<rparr>"

text \<open>A pool thread takes the oldest queued task and runs it.\<close>

definition pool_step :: "platform \<Rightarrow> server \<Rightarrow> server" where
  "pool_step pf st =
     (case threadPool st of
        [] \<Rightarrow> st
      | t # ts \<Rightarrow> run_task pf t (st\<lparr>threadPool := ts\<rparr>))"

text \<open>\<^verbatim>\<open>_threadPool.waitForDone()\<close>: the pool runs every task still queued, oldest
  first, and the call returns.\<close>

definition waitForDone :: "platform \<Rightarrow> server \<Rightarrow> server" where
  "waitForDone pf st =
     emit WaitForDone (fold (run_task pf) (threadPool st) (st\<lparr>threadPool := []\<rparr>))"

section \<open>Server lifecycle\<close>

text \<open>
  What the other threads do while a member function runs. The I/O thread calls one of the
  three handlers. Any thread may call \<^verbatim>\<open>BroadcastEvent\<close>, which tests nothing
  before it queues the task, and a thread of the pool may take the oldest queued task and
  run it. Each of these is atomic with respect to the table: the handlers and the tasks
  work on it under the mutex, and queueing a task does not touch it.
\<close>

datatype io_event =
    Opened handle connection u64 string
  | Closed handle connection
  | Message handle string

datatype pool_event =
    Submit u64 string json
  | RunNext

datatype activity =
    Io io_event
  | Pool pool_event

fun run_io :: "platform \<Rightarrow> io_event \<Rightarrow> server \<Rightarrow> server" where
  "run_io pf (Opened hdl conn now salt) st = onOpen pf hdl conn now salt st"
| "run_io pf (Closed hdl conn) st = onClose hdl conn st"
| "run_io pf (Message hdl m) st = onMessage hdl m st"

fun run_pool :: "platform \<Rightarrow> pool_event \<Rightarrow> server \<Rightarrow> server" where
  "run_pool pf (Submit r ty data) st = BroadcastEvent r ty data st"
| "run_pool pf RunNext st = pool_step pf st"

fun act :: "platform \<Rightarrow> activity \<Rightarrow> server \<Rightarrow> server" where
  "act pf (Io ev) st = run_io pf ev st"
| "act pf (Pool ev) st = run_pool pf ev st"

text \<open>One iteration of the loop over \<^verbatim>\<open>_sessions\<close> in \<^verbatim>\<open>Stop\<close>.\<close>

definition stop_session :: "platform \<Rightarrow> handle \<Rightarrow> server \<Rightarrow> server" where
  "stop_session pf hdl st =
     (let st1 = emit (PauseReading hdl (pause_reading_error pf hdl)) st
      in case pause_reading_error pf hdl of
           Some msg \<Rightarrow> blog LOG_INFO (''[WebSocketServer::Stop] Error: '' @ msg) st1
         | None \<Rightarrow>
             (let st2 = emit (Close hdl going_away ''Server stopping.'' (close_error pf hdl)) st1
              in case close_error pf hdl of
                   Some msg \<Rightarrow> blog LOG_INFO (''[WebSocketServer::Stop] Error: '' @ msg) st2
                 | None \<Rightarrow> st2))"

text \<open>
  \<^verbatim>\<open>while (_sessions.size() > 0) sleep_for(10ms)\<close>. The loop waits for the other
  threads, which run concurrently. The schedule lists, for each sleep of the loop, what
  the other threads do during it, in order: handlers of the I/O thread, calls of
  \<^verbatim>\<open>BroadcastEvent\<close>, tasks run by the pool. When the schedule is used up the other
  threads do nothing any more, and the loop over a table that is not empty never ends:
  the result is \<open>None\<close>.
\<close>

fun poll :: "platform \<Rightarrow> activity list list \<Rightarrow> server \<Rightarrow> server option" where
  "poll pf [] st = (if sessions st = [] then Some st else None)"
| "poll pf (acts # sched) st =
     (if sessions st = [] then Some st
      else poll pf sched (fold (act pf) acts (emit (Sleep 10) st)))"

text \<open>\<^verbatim>\<open>_serverThread.join()\<close>. The I/O thread is taken to have run its last handler
  when the polling loop is left: the server does not listen, and the table, which has an
  entry for every connection between its open and its close handler, is empty.\<close>

definition join :: "server \<Rightarrow> server" where
  "join st = emit Join (st\<lparr>serverThread := False\<rparr>)"

text \<open>
  \<^verbatim>\<open>WebSocketServer::Stop\<close>; \<open>None\<close> when the call never returns. \<open>waiting\<close>
  is what the other threads do while the call waits in \<^verbatim>\<open>waitForDone\<close> (which
  returns once the pool has run every task queued by then), \<open>sched\<close> what they do
  during the sleeps of the polling loop.
\<close>

definition Stop :: "platform \<Rightarrow> activity list \<Rightarrow> activity list list \<Rightarrow> server \<Rightarrow> server option" where
  "Stop pf waiting sched st =
     (if \<not> listening st
      then Some (blog LOG_WARNING
             ''[WebSocketServer::Stop] Call to Stop() but the server is not listening.'' st)
      else
        let st1 = emit StopListening (st\<lparr>listening := False\<rparr>);
            st2 = emit Lock st1;
            st3 = fold (stop_session pf) (map fst (sessions st2)) st2;
            st4 = emit Unlock st3;
            st5 = waitForDone pf (fold (act pf) waiting st4)
        in case poll pf sched st5 of
             None \<Rightarrow> None
           | Some st6 \<Rightarrow>
               Some (blog LOG_INFO ''[WebSocketServer::Stop] Server stopped successfully''
                       (join st6)))"

text \<open>\<^verbatim>\<open>WebSocketServer::InvalidateSession\<close>.\<close>

definition InvalidateSession :: "platform \<Rightarrow> handle \<Rightarrow> server \<Rightarrow> server" where
  "InvalidateSession pf hdl st =
     (let st0 = blog LOG_INFO ''[WebSocketServer::InvalidateSession] Invalidating a session.'' st;
          st1 = emit (PauseReading hdl (pause_reading_error pf hdl)) st0
      in case pause_reading_error pf hdl of
           Some msg \<Rightarrow> blog LOG_INFO (''[WebSocketServer::InvalidateSession] Error: '' @ msg) st1
         | None \<Rightarrow>
             (let st2 = emit (Close hdl SessionInvalidated
                                ''Your session has been invalidated.'' (close_error pf hdl)) st1
              in case close_error pf hdl of
                   Some msg \<Rightarrow>
                     blog LOG_INFO (''[WebSocketServer::InvalidateSession] Error: '' @ msg) st2
                 | None \<Rightarrow> st2))"

text \<open>\<^verbatim>\<open>WebSocketServer::GetWebSocketSessions\<close>.\<close>

definition GetWebSocketSessions :: "server \<Rightarrow> WebSocketSessionState list \<times> server" where
  "GetWebSocketSessions st =
     (map (\<lambda>(hdl, session).
             \<lparr> state_hdl = Some hdl,
               state_remoteAddress = remoteAddress session,
               state_connectedAt = connectedAt session,
               state_incomingMessages = incomingMessages session,
               state_outgoingMessages = outgoingMessages session \<rparr>) (sessions st),
      emit Unlock (emit Lock st))"

section \<open>The connect string\<close>

text \<open>
  \<^verbatim>\<open>Utils::Platform::GetLocalAddress\<close>. The result is the first element of the sorted
  vector; the vector passed to \<^verbatim>\<open>std::sort\<close> is not empty there, so neither is the
  sorted one (the last case below is not reached with a sort).
\<close>

definition excluded :: "host_address \<Rightarrow> bool" where
  "excluded address =
     (if isLocalHost address then True
      else if isLocalHostIPv6 address then True
      else if isLoopback address then True
      else if isLinkLocal address then True
      else if isNull address then True
      else False)"

definition priority :: "string \<Rightarrow> 8 word" where
  "priority address =
     (if prefix ''192.168.1'' address \<or> prefix ''192.168.0'' address then 0
      else if prefix ''172.16'' address then 1
      else if prefix ''10.'' address then 2
      else 255)"

definition GetLocalAddress :: "platform \<Rightarrow> string" where
  "GetLocalAddress pf =
     (let validAddresses = map toString (filter (\<lambda>a. \<not> excluded a) (allAddresses pf))
      in if validAddresses = [] then ''0.0.0.0''
         else
           let preferredAddresses = map (\<lambda>a. (a, priority a)) validAddresses
           in (case std_sort pf preferredAddresses of
                 p # _ \<Rightarrow> fst p
               | [] \<Rightarrow> []))"

text \<open>
  \<^verbatim>\<open>QString::arg\<close>: the place markers of a string are \<^verbatim>\<open>%\<close>, an optional
  \<^verbatim>\<open>L\<close>, and one or two decimal digits; \<^verbatim>\<open>arg\<close> replaces every occurrence of the marker
  with the lowest number, and returns the string as it is when it has no marker.
\<close>

definition digit_value :: "char \<Rightarrow> nat option" where
  "digit_value c =
     (let n = (of_char c :: nat) in if 48 \<le> n \<and> n \<le> 57 then Some (n - 48) else None)"

text \<open>The marker that starts right after a \<^verbatim>\<open>%\<close>: its number, and how many
  characters it takes.\<close>

fun marker_digits :: "string \<Rightarrow> (nat \<times> nat) option" where
  "marker_digits [] = None"
| "marker_digits [d] = (case digit_value d of None \<Rightarrow> None | Some a \<Rightarrow> Some (a, 1))"
| "marker_digits (d # e # s) =
     (case digit_value d of
        None \<Rightarrow> None
      | Some a \<Rightarrow>
          (case digit_value e of
             None \<Rightarrow> Some (a, 1)
           | Some b \<Rightarrow> Some (10 * a + b, 2)))"

fun place_marker :: "string \<Rightarrow> (nat \<times> nat) option" where
  "place_marker [] = None"
| "place_marker (c # s) =
     (if c = CHR ''L''
      then (case marker_digits s of None \<Rightarrow> None | Some (n, k) \<Rightarrow> Some (n, Suc k))
      else marker_digits (c # s))"

fun escapes :: "string \<Rightarrow> nat list" where
  "escapes [] = []"
| "escapes (c # s) =
     (if c = CHR ''%''
      then (case place_marker s of None \<Rightarrow> escapes s | Some (n, k) \<Rightarrow> n # escapes s)
      else escapes s)"

fun replace_escapes :: "nat \<Rightarrow> string \<Rightarrow> string \<Rightarrow> string" where
  "replace_escapes n a [] = []"
| "replace_escapes n a (c # s) =
     (if c = CHR ''%''
      then (case place_marker s of
              None \<Rightarrow> c # replace_escapes n a s
            | Some (m, k) \<Rightarrow>
                if m = n then a @ replace_escapes n a (drop k s)
                else c # replace_escapes n a s)
      else c # replace_escapes n a s)"

definition arg :: "string \<Rightarrow> string \<Rightarrow> string" where
  "arg s a =
     (case escapes s of
        [] \<Rightarrow> s
      | n # ns \<Rightarrow> replace_escapes (fold min ns n) a s)"

text \<open>A number as \<^verbatim>\<open>QString::arg\<close> and \<^verbatim>\<open>%d\<close> print it: decimal digits.\<close>

definition digit :: "nat \<Rightarrow> char" where
  "digit d = ''0123456789'' ! d"

function decimal :: "nat \<Rightarrow> string" where
  "decimal n =
     (if n < 10 then [digit n]
      else decimal (n div 10) @ [digit (n mod 10)])"
  by pat_completeness auto
termination
  by (relation "measure (\<lambda>n. n)") auto

declare decimal.simps [simp del]

text \<open>\<^verbatim>\<open>WebSocketServer::GetConnectString\<close>.\<close>

definition GetConnectString :: "platform \<Rightarrow> server \<Rightarrow> string" where
  "GetConnectString pf st =
     (if authenticationRequired st
      then arg (arg (arg ''obswebsocket|%1:%2|%3'' (GetLocalAddress pf))
                  (decimal (unat (serverPort st)))) (serverPassword st)
      else arg (arg ''obswebsocket|%1:%2'' (GetLocalAddress pf))
             (decimal (unat (serverPort st))))"

text \<open>
  \<^verbatim>\<open>WebSocketServer::Start\<close>. \<open>conf\<close> is what \<^verbatim>\<open>GetConfig()\<close> returns, \<open>salt\<close>
  what \<^verbatim>\<open>GenerateSalt()\<close> returns and \<open>listen_ec\<close> the error code of
  \<^verbatim>\<open>_server.listen\<close>. The log channels of the transport are not part of the model.
\<close>

definition Start :: "platform \<Rightarrow> Config option \<Rightarrow> string \<Rightarrow> string option \<Rightarrow> server \<Rightarrow> server" where
  "Start pf conf salt listen_ec st =
     (if listening st
      then blog LOG_WARNING
             ''[WebSocketServer::Start] Call to Start() but the server is already listening.'' st
      else case conf of
        None \<Rightarrow> blog LOG_ERROR ''[WebSocketServer::Start] Unable to retreive config!'' st
      | Some c \<Rightarrow>
          (let st1 = st\<lparr> serverPort := ServerPort c,
                         serverPassword := ServerPassword c,
                         debugEnabled := DebugEnabled c,
                         authenticationRequired := AuthRequired c,
                         authenticationSalt := salt,
                         authenticationSecret := GenerateSecret pf (ServerPassword c) salt \<rparr>;
               st2 = emit (Listen (serverPort st1) listen_ec) st1
           in case listen_ec of
                Some errorCodeMessage \<Rightarrow>
                  blog LOG_INFO (''[WebSocketServer::Start] Listen failed: '' @ errorCodeMessage) st2
              | None \<Rightarrow>
                  (let st3 = emit StartAccept (st2\<lparr>listening := True\<rparr>);
                       st4 = emit ThreadStart (st3\<lparr>serverThread := True\<rparr>)
                   in blog LOG_INFO
                        (''[WebSocketServer::Start] Server started successfully on port ''
                           @ decimal (unat (serverPort st4))
                           @ ''. Possible connect address: '' @ GetLocalAddress pf) st4)))"

section \<open>Notions used in the statements\<close>

text \<open>The frame and the payload that go with an encoding.\<close>

definition frame_of :: "WebSocketEncoding \<Rightarrow> opcode" where
  "frame_of enc = (case enc of Json \<Rightarrow> text_frame | MsgPack \<Rightarrow> binary_frame)"

definition encode :: "platform \<Rightarrow> WebSocketEncoding \<Rightarrow> json \<Rightarrow> string" where
  "encode pf enc j = (case enc of Json \<Rightarrow> json_dump pf j | MsgPack \<Rightarrow> json_to_msgpack pf j)"

text \<open>The members of a JSON object.\<close>

fun object_fields :: "json \<Rightarrow> (string \<times> json) list" where
  "object_fields (JObject kvs) = kvs"
| "object_fields _ = []"

text \<open>The encoding \<^verbatim>\<open>onOpen\<close> leaves a session with, from the header and the encoding the
  session had.\<close>

definition negotiated :: "string \<Rightarrow> WebSocketEncoding \<Rightarrow> WebSocketEncoding" where
  "negotiated contentType previous =
     (if contentType = ''application/json'' then Json
      else if contentType = ''application/msgpack'' then MsgPack
      else previous)"

text \<open>The server after the first half of \<^verbatim>\<open>onOpen\<close>: the entry of the handle is in the
  table, with the address and the time set.\<close>

definition opened :: "handle \<Rightarrow> connection \<Rightarrow> u64 \<Rightarrow> server \<Rightarrow> server" where
  "opened hdl conn now st =
     with_session hdl (\<lambda>s. s\<lparr>connectedAt := now\<rparr>)
       (with_session hdl (\<lambda>s. s\<lparr>remoteAddress := remote_endpoint conn\<rparr>)
          (emit Unlock ((emit Lock st)\<lparr>sessions := subscript hdl (sessions st)\<rparr>)))"

text \<open>The values \<^verbatim>\<open>onClose\<close> copies from a session into the state it signals.\<close>

definition snapshot :: "WebSocketSession \<Rightarrow> WebSocketSessionState" where
  "snapshot session =
     \<lparr> state_hdl = None,
       state_remoteAddress = remoteAddress session,
       state_connectedAt = connectedAt session,
       state_incomingMessages = incomingMessages session,
       state_outgoingMessages = outgoingMessages session \<rparr>"

text \<open>The sessions a broadcast with required intent \<open>r\<close> sends to, and the call it makes
  for one of them.\<close>

definition eligible :: "u64 \<Rightarrow> handle \<times> WebSocketSession \<Rightarrow> bool" where
  "eligible r p = (isIdentified (snd p) \<and> (eventSubscriptions (snd p) AND r) \<noteq> 0)"

definition deliver :: "platform \<Rightarrow> json \<Rightarrow> handle \<times> WebSocketSession \<Rightarrow> event" where
  "deliver pf msg p =
     Send (fst p) (frame_of (encoding (snd p))) (encode pf (encoding (snd p)) msg)
       (send_error pf (fst p))"

text \<open>Log lines in a trace.\<close>

fun is_log :: "event \<Rightarrow> bool" where
  "is_log (Blog lvl msg) = True"
| "is_log _ = False"

text \<open>A \<^verbatim>\<open>send\<close> call without the error code it gave back.\<close>

fun send_call :: "event \<Rightarrow> (handle \<times> opcode \<times> string) option" where
  "send_call (Send hdl opc payload ec) = Some (hdl, opc, payload)"
| "send_call _ = None"

text \<open>The two counters of every session of the table.\<close>

definition counters :: "server \<Rightarrow> (handle \<times> u64 \<times> u64) list" where
  "counters st = map (\<lambda>p. (fst p, incomingMessages (snd p), outgoingMessages (snd p))) (sessions st)"

text \<open>Sends in a trace.\<close>

fun is_send :: "event \<Rightarrow> bool" where
  "is_send (Send hdl opc payload ec) = True"
| "is_send _ = False"

text \<open>What running the task \<open>t\<close> on the table \<open>tbl\<close> adds to the trace.\<close>

definition task_events :: "platform \<Rightarrow> (handle \<times> WebSocketSession) list \<Rightarrow> broadcast_task \<Rightarrow> event list" where
  "task_events pf tbl t =
     [Lock] @ map (deliver pf (eventMessage t)) (filter (eligible (requiredIntent t)) tbl)
       @ [Unlock]"

text \<open>The server when \<^verbatim>\<open>Stop\<close> has closed the sessions and released the mutex.\<close>

definition teardown :: "platform \<Rightarrow> server \<Rightarrow> server" where
  "teardown pf st =
     emit Unlock
       (fold (stop_session pf) (map fst (sessions st))
          (emit Lock (emit StopListening (st\<lparr>listening := False\<rparr>))))"

text \<open>The server when \<^verbatim>\<open>Stop\<close> reaches its polling loop, the other threads having
  done \<open>waiting\<close> during \<^verbatim>\<open>waitForDone\<close>.\<close>

definition before_poll :: "platform \<Rightarrow> activity list \<Rightarrow> server \<Rightarrow> server" where
  "before_poll pf waiting st = waitForDone pf (fold (act pf) waiting (teardown pf st))"

text \<open>The close handler of the connection \<open>hdl\<close>.\<close>

fun closes :: "handle \<Rightarrow> activity \<Rightarrow> bool" where
  "closes hdl (Io (Closed h conn)) = (h = hdl)"
| "closes hdl _ = False"

section \<open>Example inputs\<close>

text \<open>
  A platform whose serialisers print the keys of an object, whose sends to connection 1
  fail, and which has four addresses, and the same platform with a scoped site-local
  address as its only address; a listening server with authentication required and three
  sessions, the third not identified, and the same server with a task queued; a server
  with no session; a connection by its \<^verbatim>\<open>Content-Type\<close>; a broadcast; what the other
  threads do while \<^verbatim>\<open>Stop\<close> waits and polls; and the servers \<^verbatim>\<open>Stop\<close> then returns.
\<close>

definition example_platform :: platform where
  "example_platform =
     \<lparr> json_dump = (\<lambda>j. ''json'' @ concat (map (\<lambda>kv. CHR '' '' # fst kv) (object_fields j))),
       json_to_msgpack = (\<lambda>j. ''msgpack'' @ concat (map (\<lambda>kv. CHR '' '' # fst kv) (object_fields j))),
       OBS_WEBSOCKET_VERSION = JString ''5.0.0'',
       OBS_WEBSOCKET_RPC_VERSION = JInt 1,
       send_error = (\<lambda>hdl. if hdl = 1 then Some ''broken pipe'' else None),
       pause_reading_error = (\<lambda>hdl. None),
       close_error = (\<lambda>hdl. None),
       GenerateSecret = (\<lambda>password salt. password @ salt),
       allAddresses =
         [\<lparr> toString = ''127.0.0.1'', isLocalHost = True, isLocalHostIPv6 = False,
             isLoopback = True, isLinkLocal = False, isNull = False \<rparr>,
          \<lparr> toString = ''10.0.0.5'', isLocalHost = False, isLocalHostIPv6 = False,
             isLoopback = False, isLinkLocal = False, isNull = False \<rparr>,
          \<lparr> toString = ''192.168.1.20'', isLocalHost = False, isLocalHostIPv6 = False,
             isLoopback = False, isLinkLocal = False, isNull = False \<rparr>,
          \<lparr> toString = ''fe80::1%eth0'', isLocalHost = False, isLocalHostIPv6 = False,
             isLoopback = False, isLinkLocal = True, isNull = False \<rparr>],
       std_sort = sort_key snd \<rparr>"

definition example_server :: server where
  "example_server =
     \<lparr> sessions =
         [(1, \<lparr> remoteAddress = ''10.0.0.1:50000'', connectedAt = 100, incomingMessages = 0,
                outgoingMessages = 0, encoding = Json, challenge = [], isIdentified = True,
                eventSubscriptions = 3 \<rparr>),
          (2, \<lparr> remoteAddress = ''10.0.0.2:50000'', connectedAt = 101, incomingMessages = 0,
                outgoingMessages = 0, encoding = MsgPack, challenge = [], isIdentified = True,
                eventSubscriptions = 2 \<rparr>),
          (3, \<lparr> remoteAddress = ''10.0.0.3:50000'', connectedAt = 102, incomingMessages = 0,
                outgoingMessages = 0, encoding = Json, challenge = ''c3'', isIdentified = False,
                eventSubscriptions = 3 \<rparr>)],
       listening = True, serverPort = 4444, serverPassword = ''secret'',
       debugEnabled = False, authenticationRequired = True, authenticationSalt = ''salt'',
       authenticationSecret = ''secretsalt'', threadPool = [], serverThread = True,
       trace = [] \<rparr>"

definition example_fresh_server :: server where
  "example_fresh_server =
     \<lparr> sessions = [], listening = False, serverPort = 0, serverPassword = [],
       debugEnabled = False, authenticationRequired = False, authenticationSalt = [],
       authenticationSecret = [], threadPool = [], serverThread = False, trace = [] \<rparr>"

definition example_connection :: "string \<Rightarrow> connection" where
  "example_connection contentType =
     \<lparr> remote_endpoint = ''10.0.0.9:51000'', content_type = contentType,
       local_close_code = 1000 \<rparr>"

definition example_task :: broadcast_task where
  "example_task = \<lparr> requiredIntent = 1, eventType = ''StudioModeChanged'', eventData = JNull \<rparr>"

definition example_schedule :: "activity list list" where
  "example_schedule =
     [[Io (Closed 1 (example_connection [])), Io (Closed 2 (example_connection []))],
      [Io (Closed 3 (example_connection []))]]"

definition example_stopped :: server where
  "example_stopped =
     example_server
       \<lparr> sessions := [], listening := False, serverThread := False,
         trace :=
           [StopListening, Lock, PauseReading 1 None,
            Close 1 going_away ''Server stopping.'' None, PauseReading 2 None,
            Close 2 going_away ''Server stopping.'' None, PauseReading 3 None,
            Close 3 going_away ''Server stopping.'' None, Unlock, WaitForDone,
            Sleep 10, Lock, Unlock,
            ClientDisconnected
              \<lparr>state_hdl = None, state_remoteAddress = ''10.0.0.1:50000'',
               state_connectedAt = 100, state_incomingMessages = 0,
               state_outgoingMessages = 0\<rparr> 1000,
            IdentifiedClientDisconnected
              \<lparr>state_hdl = None, state_remoteAddress = ''10.0.0.1:50000'',
               state_connectedAt = 100, state_incomingMessages = 0,
               state_outgoingMessages = 0\<rparr> 1000,
            Lock, Unlock,
            ClientDisconnected
              \<lparr>state_hdl = None, state_remoteAddress = ''10.0.0.2:50000'',
               state_connectedAt = 101, state_incomingMessages = 0,
               state_outgoingMessages = 0\<rparr> 1000,
            IdentifiedClientDisconnected
              \<lparr>state_hdl = None, state_remoteAddress = ''10.0.0.2:50000'',
               state_connectedAt = 101, state_incomingMessages = 0,
               state_outgoingMessages = 0\<rparr> 1000,
            Sleep 10, Lock, Unlock,
            ClientDisconnected
              \<lparr>state_hdl = None, state_remoteAddress = ''10.0.0.3:50000'',
               state_connectedAt = 102, state_incomingMessages = 0,
               state_outgoingMessages = 0\<rparr> 1000,
            Join,
            Blog LOG_INFO ''[WebSocketServer::Stop] Server stopped successfully''] \<rparr>"

definition example_busy_server :: server where
  "example_busy_server = example_server\<lparr>threadPool := [example_task]\<rparr>"

definition example_waiting :: "activity list" where
  "example_waiting = [Pool (Submit 2 ''SceneChanged'' JNull)]"

definition example_busy_schedule :: "activity list list" where
  "example_busy_schedule =
     [[Io (Closed 1 (example_connection [])), Io (Closed 2 (example_connection []))],
      [Pool (Submit 2 ''ExitStarted'' JNull), Io (Closed 3 (example_connection []))]]"

definition example_busy_stopped :: server where
  "example_busy_stopped =
     example_server
       \<lparr> sessions := [], listening := False,
         threadPool := [\<lparr>requiredIntent = 2, eventType = ''ExitStarted'', eventData = JNull\<rparr>],
         serverThread := False,
         trace :=
           [StopListening, Lock, PauseReading 1 None,
            Close 1 going_away ''Server stopping.'' None, PauseReading 2 None,
            Close 2 going_away ''Server stopping.'' None, PauseReading 3 None,
            Close 3 going_away ''Server stopping.'' None, Unlock,
            Lock,
            Send 1 text_frame ''json messageType eventType'' (Some ''broken pipe''),
            Unlock,
            Lock,
            Send 1 text_frame ''json messageType eventType'' (Some ''broken pipe''),
            Send 2 binary_frame ''msgpack messageType eventType'' None,
            Unlock,
            WaitForDone,
            Sleep 10, Lock, Unlock,
            ClientDisconnected
              \<lparr>state_hdl = None, state_remoteAddress = ''10.0.0.1:50000'',
               state_connectedAt = 100, state_incomingMessages = 0,
               state_outgoingMessages = 0\<rparr> 1000,
            IdentifiedClientDisconnected
              \<lparr>state_hdl = None, state_remoteAddress = ''10.0.0.1:50000'',
               state_connectedAt = 100, state_incomingMessages = 0,
               state_outgoingMessages = 0\<rparr> 1000,
            Lock, Unlock,
            ClientDisconnected
              \<lparr>state_hdl = None, state_remoteAddress = ''10.0.0.2:50000'',
               state_connectedAt = 101, state_incomingMessages = 0,
               state_outgoingMessages = 0\<rparr> 1000,
            IdentifiedClientDisconnected
              \<lparr>state_hdl = None, state_remoteAddress = ''10.0.0.2:50000'',
               state_connectedAt = 101, state_incomingMessages = 0,
               state_outgoingMessages = 0\<rparr> 1000,
            Sleep 10, Lock, Unlock,
            ClientDisconnected
              \<lparr>state_hdl = None, state_remoteAddress = ''10.0.0.3:50000'',
               state_connectedAt = 102, state_incomingMessages = 0,
               state_outgoingMessages = 0\<rparr> 1000,
            Join,
            Blog LOG_INFO ''[WebSocketServer::Stop] Server stopped successfully''] \<rparr>"

definition example_others :: "activity list" where
  "example_others =
     [Io (Message 7 ''{}''), Pool (Submit 1 ''StudioModeChanged'' JNull), Pool RunNext,
      Io (Closed 1 (example_connection []))]"

definition example_scoped_platform :: platform where
  "example_scoped_platform =
     example_platform
       \<lparr> allAddresses :=
           [\<lparr> toString = ''fec0::1%2'', isLocalHost = False, isLocalHostIPv6 = False,
               isLoopback = False, isLinkLocal = False, isNull = False \<rparr>] \<rparr>"

section \<open>Basic facts\<close>

lemma trace_emit [simp]: "trace (emit e st) = trace st @ [e]"
  by (simp add: emit_def)

lemma sessions_emit [simp]: "sessions (emit e st) = sessions st"
  by (simp add: emit_def)

lemma listening_emit [simp]: "listening (emit e st) = listening st"
  by (simp add: emit_def)

lemma threadPool_emit [simp]: "threadPool (emit e st) = threadPool st"
  by (simp add: emit_def)

lemma authenticationRequired_emit [simp]:
  "authenticationRequired (emit e st) = authenticationRequired st"
  by (simp add: emit_def)

lemma authenticationSalt_emit [simp]:
  "authenticationSalt (emit e st) = authenticationSalt st"
  by (simp add: emit_def)

lemma serverThread_emit [simp]: "serverThread (emit e st) = serverThread st"
  by (simp add: emit_def)

lemma with_session_fields [simp]:
  "trace (with_session hdl f st) = trace st"
  "sessions (with_session hdl f st) = modify hdl f (sessions st)"
  "listening (with_session hdl f st) = listening st"
  "threadPool (with_session hdl f st) = threadPool st"
  "serverThread (with_session hdl f st) = serverThread st"
  "authenticationRequired (with_session hdl f st) = authenticationRequired st"
  "authenticationSalt (with_session hdl f st) = authenticationSalt st"
  by (simp_all add: with_session_def)

lemma map_of_modify:
  "map_of (modify hdl f tbl) k = (if k = hdl then map_option f (map_of tbl k) else map_of tbl k)"
  by (induction tbl) (auto simp: modify_def)

lemma map_of_insort_key:
  "map_of tbl k = None \<Longrightarrow> map_of (insort_key fst (k, v) tbl) = (map_of tbl)(k \<mapsto> v)"
proof (induction tbl)
  case Nil
  then show ?case by simp
next
  case (Cons x xs)
  then have ne: "fst x \<noteq> k" and IH: "map_of (insort_key fst (k, v) xs) = (map_of xs)(k \<mapsto> v)"
    by (cases x; auto split: if_splits)+
  show ?case
  proof (cases "k \<le> fst x")
    case True
    then show ?thesis by (cases x) (auto simp: fun_eq_iff)
  next
    case False
    then have "map_of (insort_key fst (k, v) (x # xs)) = (map_of (insort_key fst (k, v) xs))(fst x \<mapsto> snd x)"
      by (cases x) simp
    also have "\<dots> = ((map_of xs)(fst x \<mapsto> snd x))(k \<mapsto> v)"
      using ne by (auto simp: IH fun_eq_iff)
    finally show ?thesis by (cases x) (auto simp: fun_eq_iff)
  qed
qed

lemma map_of_subscript:
  "map_of (subscript hdl tbl) k =
     (if k = hdl then Some (case map_of tbl hdl of Some s \<Rightarrow> s | None \<Rightarrow> WebSocketSession_default)
      else map_of tbl k)"
  by (auto simp: subscript_def map_of_insort_key split: option.splits)

lemma erase_absent: "map_of tbl hdl = None \<Longrightarrow> erase hdl tbl = tbl"
  by (induction tbl) (auto simp: erase_def split: if_splits)

lemma erase_subscript: "erase hdl (subscript hdl tbl) = erase hdl tbl"
  by (simp add: subscript_def erase_def filter_insort_triv split: option.splits)

lemma keys_erase: "hdl \<notin> fst ` set (erase hdl tbl)"
  by (auto simp: erase_def)

lemma map_of_erase: "map_of (erase hdl tbl) k = (if k = hdl then None else map_of tbl k)"
  by (induction tbl) (auto simp: erase_def)

section \<open>Opening and closing a connection\<close>

lemma session_at_with_session:
  "session_at k (with_session hdl f st) =
     (if k = hdl \<and> map_of (sessions st) hdl \<noteq> None then f (session_at k st) else session_at k st)"
  by (auto simp: session_at_def map_of_modify split: option.splits)

lemma helloMessage_cong:
  "authenticationRequired st' = authenticationRequired st \<Longrightarrow>
   authenticationSalt st' = authenticationSalt st \<Longrightarrow>
   helloMessage pf st' salt = helloMessage pf st salt"
  by (simp add: helloMessage_def Let_def)

lemma encoding_session_at_challenge:
  "encoding (session_at k (with_session hdl (\<lambda>s. s\<lparr>challenge := c\<rparr>) st)) = encoding (session_at k st)"
  by (simp add: session_at_with_session)

lemma send_hello_eq:
  "send_hello pf hdl salt st =
     emit (Send hdl (frame_of (encoding (session_at hdl st)))
                   (encode pf (encoding (session_at hdl st)) (helloMessage pf st salt))
                   (send_error pf hdl))
       (if authenticationRequired st
        then with_session hdl (\<lambda>s. s\<lparr>challenge := salt\<rparr>) st else st)"
proof -
  define st1 where "st1 = (if authenticationRequired st
        then with_session hdl (\<lambda>s. s\<lparr>challenge := salt\<rparr>) st else st)"
  have e: "encoding (session_at hdl st1) = encoding (session_at hdl st)"
    unfolding st1_def by (simp only: encoding_session_at_challenge if_distrib [of "\<lambda>s. encoding (session_at hdl s)"] if_cancel)
  have h: "helloMessage pf st1 salt = helloMessage pf st salt"
    unfolding st1_def by (rule helloMessage_cong) simp_all
  have "send_hello pf hdl salt st =
      (case encoding (session_at hdl st1) of
           Json \<Rightarrow> snd (server_send pf hdl (json_dump pf (helloMessage pf st1 salt)) text_frame st1)
         | MsgPack \<Rightarrow> snd (server_send pf hdl (json_to_msgpack pf (helloMessage pf st1 salt)) binary_frame st1))"
    unfolding send_hello_def Let_def st1_def ..
  also have "\<dots> = emit (Send hdl (frame_of (encoding (session_at hdl st)))
                   (encode pf (encoding (session_at hdl st)) (helloMessage pf st salt))
                   (send_error pf hdl)) st1"
    unfolding e h
    by (cases "encoding (session_at hdl st)") (simp_all add: server_send_def frame_of_def encode_def)
  finally show ?thesis unfolding st1_def .
qed

lemma helloMessage_fields:
  "map_of (object_fields (helloMessage pf st salt)) ''messageType'' = Some (JString ''Hello'')"
  "map_of (object_fields (helloMessage pf st salt)) ''obsWebSocketVersion'' = Some (OBS_WEBSOCKET_VERSION pf)"
  "map_of (object_fields (helloMessage pf st salt)) ''rpcVersion'' = Some (OBS_WEBSOCKET_RPC_VERSION pf)"
  "map_of (object_fields (helloMessage pf st salt)) ''authentication'' =
     (if authenticationRequired st
      then Some (JObject [(''challenge'', JString salt), (''salt'', JString (authenticationSalt st))])
      else None)"
  by (simp_all add: helloMessage_def Let_def)

lemma onOpen_invalid_eq:
  assumes "content_type conn \<noteq> []" "content_type conn \<noteq> ''application/json''"
    "content_type conn \<noteq> ''application/msgpack''"
  shows "onOpen pf hdl conn now salt st =
           emit (ConnClose hdl InvalidContentType
              ''Your HTTP `Content-Type` header specifies an invalid encoding type.'')
             (opened hdl conn now st)"
  unfolding onOpen_def opened_def Let_def using assms by simp

lemma trace_opened: "trace (opened hdl conn now st) = trace st @ [Lock, Unlock]"
  by (simp add: opened_def)

lemma map_of_opened:
  "map_of (sessions (opened hdl conn now st)) k =
     (if k = hdl
      then Some ((session_at hdl st)\<lparr>remoteAddress := remote_endpoint conn, connectedAt := now\<rparr>)
      else map_of (sessions st) k)"
  by (simp add: opened_def map_of_modify map_of_subscript session_at_def)

lemma opened_fields [simp]:
  "listening (opened hdl conn now st) = listening st"
  "threadPool (opened hdl conn now st) = threadPool st"
  "serverThread (opened hdl conn now st) = serverThread st"
  "authenticationRequired (opened hdl conn now st) = authenticationRequired st"
  "authenticationSalt (opened hdl conn now st) = authenticationSalt st"
  by (simp_all add: opened_def)

lemma onOpen_valid_eq:
  "content_type conn = [] \<Longrightarrow>
     onOpen pf hdl conn now salt st = send_hello pf hdl salt (opened hdl conn now st)"
  "content_type conn = ''application/json'' \<Longrightarrow>
     onOpen pf hdl conn now salt st =
       send_hello pf hdl salt (with_session hdl (\<lambda>s. s\<lparr>encoding := Json\<rparr>) (opened hdl conn now st))"
  "content_type conn = ''application/msgpack'' \<Longrightarrow>
     onOpen pf hdl conn now salt st =
       send_hello pf hdl salt (with_session hdl (\<lambda>s. s\<lparr>encoding := MsgPack\<rparr>) (opened hdl conn now st))"
  unfolding onOpen_def opened_def Let_def by simp_all

lemma session_at_opened:
  "session_at hdl (opened hdl conn now st) =
     (session_at hdl st)\<lparr>remoteAddress := remote_endpoint conn, connectedAt := now\<rparr>"
  by (simp add: session_at_def [of hdl "opened hdl conn now st"] map_of_opened)

lemma session_at_emit [simp]: "session_at k (emit e st) = session_at k st"
  by (simp add: session_at_def)

lemma onOpen_valid_sent:
  fixes conn hdl st
  defines "enc \<equiv> negotiated (content_type conn) (encoding (session_at hdl st))"
  assumes ct: "content_type conn = [] \<or> content_type conn = ''application/json''
           \<or> content_type conn = ''application/msgpack''"
  shows "trace (onOpen pf hdl conn now salt st) =
           trace st @ [Lock, Unlock,
             Send hdl (frame_of enc) (encode pf enc (helloMessage pf st salt)) (send_error pf hdl)]"
    and "encoding (session_at hdl (onOpen pf hdl conn now salt st)) = enc"
proof -
  let ?o = "opened hdl conn now st"
  have in_tbl: "map_of (sessions ?o) hdl \<noteq> None"
    by (simp add: map_of_opened)
  consider (absent) "content_type conn = []"
    | (json) "content_type conn = ''application/json''"
    | (msgpack) "content_type conn = ''application/msgpack''"
    using ct by blast
  then have "trace (onOpen pf hdl conn now salt st) =
           trace st @ [Lock, Unlock,
             Send hdl (frame_of enc) (encode pf enc (helloMessage pf st salt)) (send_error pf hdl)]
           \<and> encoding (session_at hdl (onOpen pf hdl conn now salt st)) = enc"
  proof cases
    case absent
    then have e: "enc = encoding (session_at hdl st)" by (simp add: enc_def negotiated_def)
    have h: "helloMessage pf ?o salt = helloMessage pf st salt"
      by (rule helloMessage_cong) simp_all
    show ?thesis
      unfolding onOpen_valid_eq(1) [OF absent] send_hello_eq e
      by (simp add: session_at_opened trace_opened h session_at_with_session)
  next
    case json
    then have e: "enc = Json" by (simp add: enc_def negotiated_def)
    let ?s = "with_session hdl (\<lambda>s. s\<lparr>encoding := Json\<rparr>) ?o"
    have h: "helloMessage pf ?s salt = helloMessage pf st salt"
      by (rule helloMessage_cong) simp_all
    have s: "encoding (session_at hdl ?s) = Json"
      using in_tbl by (simp add: session_at_with_session)
    show ?thesis
      unfolding onOpen_valid_eq(2) [OF json] send_hello_eq e h s
      using s by (simp add: trace_opened session_at_with_session)
  next
    case msgpack
    then have e: "enc = MsgPack" by (simp add: enc_def negotiated_def)
    let ?s = "with_session hdl (\<lambda>s. s\<lparr>encoding := MsgPack\<rparr>) ?o"
    have h: "helloMessage pf ?s salt = helloMessage pf st salt"
      by (rule helloMessage_cong) simp_all
    have s: "encoding (session_at hdl ?s) = MsgPack"
      using in_tbl by (simp add: session_at_with_session)
    show ?thesis
      unfolding onOpen_valid_eq(3) [OF msgpack] send_hello_eq e h s
      using s by (simp add: trace_opened session_at_with_session)
  qed
  then show "trace (onOpen pf hdl conn now salt st) =
           trace st @ [Lock, Unlock,
             Send hdl (frame_of enc) (encode pf enc (helloMessage pf st salt)) (send_error pf hdl)]"
    and "encoding (session_at hdl (onOpen pf hdl conn now salt st)) = enc"
    by simp_all
qed

lemma session_at_subscript:
  "session_at hdl (st\<lparr>sessions := subscript hdl (sessions st)\<rparr>) = session_at hdl st"
  by (simp add: session_at_def map_of_subscript split: option.splits)

lemma onClose_eq:
  "onClose hdl conn st =
     st\<lparr>sessions := erase hdl (sessions st),
        trace := trace st @ [Lock, Unlock,
                   ClientDisconnected (snapshot (session_at hdl st)) (local_close_code conn)]
                 @ (if isIdentified (session_at hdl st)
                    then [IdentifiedClientDisconnected (snapshot (session_at hdl st))
                            (local_close_code conn)]
                    else [])\<rparr>"
proof -
  have s: "session_at hdl ((emit Lock st)\<lparr>sessions := subscript hdl (sessions st)\<rparr>) = session_at hdl st"
    using session_at_subscript [of hdl "emit Lock st"] by simp
  show ?thesis
    unfolding onClose_def Let_def s
    by (simp add: emit_def erase_subscript snapshot_def)
qed

text \<open>
  C7. A connection whose \<^verbatim>\<open>Content-Type\<close> header is absent, \<^verbatim>\<open>application/json\<close> or
  \<^verbatim>\<open>application/msgpack\<close>: \<^verbatim>\<open>onOpen\<close> sends exactly one frame, to that connection.
  It is a text frame holding the JSON dump of the \<^verbatim>\<open>Hello\<close> object when the session's
  encoding is Json and a binary frame holding its MessagePack form when it is MsgPack,
  where the session's encoding is the one the header names (the one the session already
  had when the header is absent). The object has \<^verbatim>\<open>messageType\<close> \<^verbatim>\<open>Hello\<close>,
  \<^verbatim>\<open>obsWebSocketVersion\<close> and \<^verbatim>\<open>rpcVersion\<close>, and it has an \<^verbatim>\<open>authentication\<close>
  object, made of the challenge and the salt, exactly when authentication is required.
\<close>

theorem onOpen_hello:
  assumes "content_type conn = [] \<or> content_type conn = ''application/json''
           \<or> content_type conn = ''application/msgpack''"
  shows "(let st' = onOpen pf hdl conn now salt st;
              enc = encoding (session_at hdl st');
              hello = helloMessage pf st salt
          in trace st' = trace st @ [Lock, Unlock,
                 Send hdl (frame_of enc) (encode pf enc hello) (send_error pf hdl)]
             \<and> enc = negotiated (content_type conn) (encoding (session_at hdl st))
             \<and> map_of (object_fields hello) ''messageType'' = Some (JString ''Hello'')
             \<and> map_of (object_fields hello) ''obsWebSocketVersion'' = Some (OBS_WEBSOCKET_VERSION pf)
             \<and> map_of (object_fields hello) ''rpcVersion'' = Some (OBS_WEBSOCKET_RPC_VERSION pf)
             \<and> map_of (object_fields hello) ''authentication'' =
                 (if authenticationRequired st
                  then Some (JObject [(''challenge'', JString salt),
                                      (''salt'', JString (authenticationSalt st))])
                  else None))"
  unfolding Let_def
  using onOpen_valid_sent [OF assms, where pf = pf and hdl = hdl and now = now and salt = salt and st = st]
    helloMessage_fields [of pf st salt]
  by simp

theorem onOpen_hello_witness:
  "content_type (example_connection ''application/msgpack'') = ''application/msgpack''
   \<and> trace (onOpen example_platform 7 (example_connection ''application/msgpack'') 1000 ''c7''
         example_server) =
       [Lock, Unlock,
        Send 7 binary_frame ''msgpack messageType obsWebSocketVersion rpcVersion authentication''
          None]
   \<and> encoding (session_at 7 (onOpen example_platform 7 (example_connection ''application/msgpack'')
         1000 ''c7'' example_server)) = MsgPack
   \<and> map_of (object_fields (helloMessage example_platform example_server ''c7'')) ''authentication'' =
       Some (JObject [(''challenge'', JString ''c7''), (''salt'', JString ''salt'')])"
  using onOpen_hello [of "example_connection ''application/msgpack''" example_platform 7 1000
      "''c7''" example_server]
  by (simp add: Let_def example_connection_def example_server_def example_platform_def
      negotiated_def frame_of_def encode_def helloMessage_def)

text \<open>
  C8. \<^verbatim>\<open>onClose\<close> takes the mutex, reads the session of the handle, erases the entry
  of the handle from the table and releases the mutex; after that it emits
  \<^verbatim>\<open>ClientDisconnected\<close> with the values read (address, connection time, the two
  counters) and the connection's local close code, and then
  \<^verbatim>\<open>IdentifiedClientDisconnected\<close> with the same values exactly when the session read
  was identified. Nothing else is emitted and nothing else of the server changes.
\<close>

theorem onClose_notifications:
  "onClose hdl conn st =
     st\<lparr>sessions := erase hdl (sessions st),
        trace := trace st @ [Lock, Unlock,
                   ClientDisconnected (snapshot (session_at hdl st)) (local_close_code conn)]
                 @ (if isIdentified (session_at hdl st)
                    then [IdentifiedClientDisconnected (snapshot (session_at hdl st))
                            (local_close_code conn)]
                    else [])\<rparr>
   \<and> hdl \<notin> fst ` set (sessions (onClose hdl conn st))"
  by (simp add: onClose_eq keys_erase)

theorem onClose_notifications_witness:
  "trace (onClose 1 (example_connection []) example_server) =
     [Lock, Unlock,
      ClientDisconnected \<lparr>state_hdl = None, state_remoteAddress = ''10.0.0.1:50000'',
         state_connectedAt = 100, state_incomingMessages = 0, state_outgoingMessages = 0\<rparr> 1000,
      IdentifiedClientDisconnected \<lparr>state_hdl = None, state_remoteAddress = ''10.0.0.1:50000'',
         state_connectedAt = 100, state_incomingMessages = 0, state_outgoingMessages = 0\<rparr> 1000]
   \<and> trace (onClose 3 (example_connection []) example_server) =
     [Lock, Unlock,
      ClientDisconnected \<lparr>state_hdl = None, state_remoteAddress = ''10.0.0.3:50000'',
         state_connectedAt = 102, state_incomingMessages = 0, state_outgoingMessages = 0\<rparr> 1000]
   \<and> map fst (sessions (onClose 1 (example_connection []) example_server)) = [2, 3]"
  using onClose_notifications [of 1 "example_connection []" example_server]
    onClose_notifications [of 3 "example_connection []" example_server]
  by (simp add: example_server_def example_connection_def session_at_def snapshot_def erase_def)

text \<open>
  C10. \<^verbatim>\<open>onClose\<close> for a handle that has no entry in the table: the lookup makes a
  default-constructed session and the erase removes it again, so the table is as it was
  (with no entry for the handle), and the only notification is \<^verbatim>\<open>ClientDisconnected\<close>
  with the values of a default session: empty address, connection time zero and both
  counters zero.
\<close>

theorem onClose_unknown_handle:
  assumes "map_of (sessions st) hdl = None"
  shows "sessions (onClose hdl conn st) = sessions st
         \<and> map_of (sessions (onClose hdl conn st)) hdl = None
         \<and> trace (onClose hdl conn st) =
             trace st @ [Lock, Unlock,
               ClientDisconnected \<lparr>state_hdl = None, state_remoteAddress = [],
                  state_connectedAt = 0, state_incomingMessages = 0,
                  state_outgoingMessages = 0\<rparr> (local_close_code conn)]"
proof -
  have d: "session_at hdl st = WebSocketSession_default"
    using assms by (simp add: session_at_def)
  have e: "erase hdl (sessions st) = sessions st"
    using assms by (rule erase_absent)
  show ?thesis
    unfolding onClose_eq d e using assms
    by (simp add: WebSocketSession_default_def snapshot_def)
qed

theorem onClose_unknown_handle_witness:
  "map_of (sessions example_server) 9 = None
   \<and> sessions (onClose 9 (example_connection []) example_server) = sessions example_server
   \<and> trace (onClose 9 (example_connection []) example_server) =
       [Lock, Unlock,
        ClientDisconnected \<lparr>state_hdl = None, state_remoteAddress = [],
           state_connectedAt = 0, state_incomingMessages = 0, state_outgoingMessages = 0\<rparr> 1000]"
proof -
  have a: "map_of (sessions example_server) 9 = None"
    by (simp add: example_server_def)
  show ?thesis
    using a onClose_unknown_handle [OF a, of "example_connection []"]
    by (simp add: example_connection_def example_server_def)
qed

section \<open>Broadcasts\<close>

lemma broadcast_loop_eq:
  "mj = [] \<or> mj = json_dump pf msg \<Longrightarrow> mm = [] \<or> mm = json_to_msgpack pf msg \<Longrightarrow>
   snd (snd (broadcast_loop pf r msg tbl (mj, mm, st))) =
     st\<lparr>trace := trace st @ map (deliver pf msg) (filter (eligible r) tbl)\<rparr>"
proof (induction tbl arbitrary: mj mm st)
  case Nil
  then show ?case by simp
next
  case (Cons p tbl)
  obtain hdl session where p: "p = (hdl, session)" by (cases p)
  show ?case
  proof (cases "eligible r p")
    case False
    then have "broadcast_loop pf r msg (p # tbl) (mj, mm, st) = broadcast_loop pf r msg tbl (mj, mm, st)"
      by (auto simp: p eligible_def)
    with Cons False show ?thesis by simp
  next
    case True
    then have el: "isIdentified session" "(eventSubscriptions session AND r) \<noteq> 0"
      by (simp_all add: p eligible_def)
    show ?thesis
    proof (cases "encoding session")
      case Json
      define mj' where "mj' = (if mj = [] then json_dump pf msg else mj)"
      have mj': "mj' = json_dump pf msg" using Cons.prems(1) by (auto simp: mj'_def)
      have "broadcast_loop pf r msg (p # tbl) (mj, mm, st) =
              broadcast_loop pf r msg tbl (mj', mm, emit (Send hdl text_frame mj' (send_error pf hdl)) st)"
        using el Json by (simp add: p mj'_def Let_def server_send_def)
      moreover have "snd (snd (broadcast_loop pf r msg tbl (mj', mm, emit (Send hdl text_frame mj' (send_error pf hdl)) st))) =
          (emit (Send hdl text_frame mj' (send_error pf hdl)) st)\<lparr>trace := trace (emit (Send hdl text_frame mj' (send_error pf hdl)) st) @ map (deliver pf msg) (filter (eligible r) tbl)\<rparr>"
        by (rule Cons.IH) (use mj' Cons.prems in auto)
      ultimately show ?thesis
        using True Json by (simp add: p mj' deliver_def frame_of_def encode_def emit_def)
    next
      case MsgPack
      define mm' where "mm' = (if mm = [] then json_to_msgpack pf msg else mm)"
      have mm': "mm' = json_to_msgpack pf msg" using Cons.prems(2) by (auto simp: mm'_def)
      have "broadcast_loop pf r msg (p # tbl) (mj, mm, st) =
              broadcast_loop pf r msg tbl (mj, mm', emit (Send hdl binary_frame mm' (send_error pf hdl)) st)"
        using el MsgPack by (simp add: p mm'_def Let_def server_send_def)
      moreover have "snd (snd (broadcast_loop pf r msg tbl (mj, mm', emit (Send hdl binary_frame mm' (send_error pf hdl)) st))) =
          (emit (Send hdl binary_frame mm' (send_error pf hdl)) st)\<lparr>trace := trace (emit (Send hdl binary_frame mm' (send_error pf hdl)) st) @ map (deliver pf msg) (filter (eligible r) tbl)\<rparr>"
        by (rule Cons.IH) (use mm' Cons.prems in auto)
      ultimately show ?thesis
        using True MsgPack by (simp add: p mm' deliver_def frame_of_def encode_def emit_def)
    qed
  qed
qed

lemma run_task_eq:
  "run_task pf t st =
     st\<lparr>trace := trace st @ [Lock]
          @ map (deliver pf (eventMessage t)) (filter (eligible (requiredIntent t)) (sessions st))
          @ [Unlock]\<rparr>"
  by (simp add: run_task_def Let_def broadcast_loop_eq emit_def)

lemma run_task_fields [simp]:
  "sessions (run_task pf t st) = sessions st"
  "listening (run_task pf t st) = listening st"
  "threadPool (run_task pf t st) = threadPool st"
  "serverThread (run_task pf t st) = serverThread st"
  by (simp_all add: run_task_eq)

lemma trace_run_task:
  "trace (run_task pf t st) =
     trace st @ [Lock]
       @ map (deliver pf (eventMessage t)) (filter (eligible (requiredIntent t)) (sessions st))
       @ [Unlock]"
  by (simp add: run_task_eq)

lemma keys_modify: "map fst (modify hdl f tbl) = map fst tbl"
  by (induction tbl) (simp_all add: modify_def)

lemma keys_insort_key: "map fst (insort_key fst (k, v) tbl) = insort k (map fst tbl)"
  by (induction tbl) simp_all

lemma distinct_keys_subscript:
  "distinct (map fst tbl) \<Longrightarrow> distinct (map fst (subscript hdl tbl))"
  by (auto simp: subscript_def keys_insort_key distinct_insort map_of_eq_None_iff
      split: option.splits)

lemma distinct_keys_erase:
  "distinct (map fst tbl) \<Longrightarrow> distinct (map fst (erase hdl tbl))"
  by (simp add: erase_def distinct_map_filter)

lemma keys_send_hello: "map fst (sessions (send_hello pf hdl salt st)) = map fst (sessions st)"
  unfolding send_hello_eq by (simp add: keys_modify)

lemma keys_opened:
  "map fst (sessions (opened hdl conn now st)) = map fst (subscript hdl (sessions st))"
  by (simp add: opened_def keys_modify)

lemma keys_onOpen:
  "map fst (sessions (onOpen pf hdl conn now salt st)) = map fst (subscript hdl (sessions st))"
proof -
  consider (absent) "content_type conn = []"
    | (json) "content_type conn = ''application/json''"
    | (msgpack) "content_type conn = ''application/msgpack''"
    | (other) "content_type conn \<noteq> []" "content_type conn \<noteq> ''application/json''"
        "content_type conn \<noteq> ''application/msgpack''"
    by blast
  then show ?thesis
  proof cases
    case absent
    show ?thesis unfolding onOpen_valid_eq(1) [OF absent] keys_send_hello keys_opened ..
  next
    case json
    show ?thesis
      unfolding onOpen_valid_eq(2) [OF json] keys_send_hello
      by (simp add: keys_modify keys_opened)
  next
    case msgpack
    show ?thesis
      unfolding onOpen_valid_eq(3) [OF msgpack] keys_send_hello
      by (simp add: keys_modify keys_opened)
  next
    case other
    show ?thesis unfolding onOpen_invalid_eq [OF other] by (simp add: keys_opened)
  qed
qed

text \<open>The keys of the table stay distinct, as those of a \<^verbatim>\<open>std::map\<close> are: no handler
  and no broadcast task breaks it.\<close>

lemma distinct_keys_run_io:
  "distinct (map fst (sessions st)) \<Longrightarrow> distinct (map fst (sessions (run_io pf ev st)))"
proof (cases ev)
  case (Opened hdl conn now salt)
  assume "distinct (map fst (sessions st))"
  then show ?thesis
    by (simp add: Opened keys_onOpen distinct_keys_subscript)
next
  case (Closed hdl conn)
  assume "distinct (map fst (sessions st))"
  then show ?thesis
    by (simp add: Closed onClose_eq distinct_keys_erase)
next
  case (Message hdl m)
  assume "distinct (map fst (sessions st))"
  then show ?thesis
    by (simp add: Message onMessage_def)
qed

lemma distinct_keys_run_task:
  "distinct (map fst (sessions st)) \<Longrightarrow> distinct (map fst (sessions (run_task pf t st)))"
  by simp

lemma new_events_run_task:
  "drop (length (trace st)) (trace (run_task pf t st)) =
     [Lock] @ map (deliver pf (eventMessage t))
                (filter (eligible (requiredIntent t)) (sessions st)) @ [Unlock]"
  by (simp add: trace_run_task)

lemma send_in_broadcast:
  "Send hdl opc payload ec \<in> set (drop (length (trace st)) (trace (run_task pf t st))) =
     (\<exists>s. (hdl, s) \<in> set (sessions st) \<and> eligible (requiredIntent t) (hdl, s)
          \<and> opc = frame_of (encoding s) \<and> payload = encode pf (encoding s) (eventMessage t)
          \<and> ec = send_error pf hdl)"
  unfolding new_events_run_task by (auto simp: deliver_def image_iff)

text \<open>
  C3. A broadcast task with required intent \<open>r\<close> takes the mutex, sends one frame
  for each session of the table that is identified and whose subscriptions have a bit in
  common with \<open>r\<close>, in the order of the table, and releases the mutex. So a session
  of the table is sent the event if and only if it is identified and subscribed, and what
  it is sent is a text frame with the JSON dump of the event when its encoding is Json, a
  binary frame with the MessagePack form when it is MsgPack. (The keys of a
  \<^verbatim>\<open>std::map\<close> are distinct.)
\<close>

theorem broadcast_recipients:
  assumes "distinct (map fst (sessions st))" and "(hdl, s) \<in> set (sessions st)"
  shows "trace (run_task pf t st) =
           trace st @ [Lock]
             @ map (\<lambda>p. Send (fst p) (frame_of (encoding (snd p)))
                           (encode pf (encoding (snd p)) (eventMessage t)) (send_error pf (fst p)))
                 (filter (\<lambda>p. isIdentified (snd p)
                            \<and> (eventSubscriptions (snd p) AND requiredIntent t) \<noteq> 0)
                    (sessions st))
             @ [Unlock]
         \<and> ((\<exists>opc payload ec. Send hdl opc payload ec
                \<in> set (drop (length (trace st)) (trace (run_task pf t st))))
            = (isIdentified s \<and> (eventSubscriptions s AND requiredIntent t) \<noteq> 0))
         \<and> (\<forall>opc payload ec. Send hdl opc payload ec
                \<in> set (drop (length (trace st)) (trace (run_task pf t st)))
              \<longrightarrow> opc = frame_of (encoding s)
                  \<and> payload = encode pf (encoding s) (eventMessage t))"
proof -
  have el: "eligible (requiredIntent t) =
      (\<lambda>p. isIdentified (snd p) \<and> (eventSubscriptions (snd p) AND requiredIntent t) \<noteq> 0)"
    by (simp add: eligible_def fun_eq_iff)
  have dl: "deliver pf (eventMessage t) =
      (\<lambda>p. Send (fst p) (frame_of (encoding (snd p)))
              (encode pf (encoding (snd p)) (eventMessage t)) (send_error pf (fst p)))"
    by (simp add: deliver_def fun_eq_iff)
  have only: "s' = s" if "(hdl, s') \<in> set (sessions st)" for s'
    by (rule eq_key_imp_eq_value [OF assms(1) that assms(2)])
  have tr: "trace (run_task pf t st) =
           trace st @ [Lock]
             @ map (\<lambda>p. Send (fst p) (frame_of (encoding (snd p)))
                           (encode pf (encoding (snd p)) (eventMessage t)) (send_error pf (fst p)))
                 (filter (\<lambda>p. isIdentified (snd p)
                            \<and> (eventSubscriptions (snd p) AND requiredIntent t) \<noteq> 0)
                    (sessions st))
             @ [Unlock]"
    unfolding trace_run_task el dl ..
  have iff: "(\<exists>opc payload ec. Send hdl opc payload ec
                \<in> set (drop (length (trace st)) (trace (run_task pf t st))))
            = (isIdentified s \<and> (eventSubscriptions s AND requiredIntent t) \<noteq> 0)"
  proof
    assume "\<exists>opc payload ec. Send hdl opc payload ec
                \<in> set (drop (length (trace st)) (trace (run_task pf t st)))"
    then obtain s' where "(hdl, s') \<in> set (sessions st)" "eligible (requiredIntent t) (hdl, s')"
      unfolding send_in_broadcast by blast
    then have "eligible (requiredIntent t) (hdl, s)"
      using only by blast
    then show "isIdentified s \<and> (eventSubscriptions s AND requiredIntent t) \<noteq> 0"
      by (simp add: eligible_def)
  next
    assume "isIdentified s \<and> (eventSubscriptions s AND requiredIntent t) \<noteq> 0"
    then have "eligible (requiredIntent t) (hdl, s)"
      by (simp add: eligible_def)
    then have "Send hdl (frame_of (encoding s)) (encode pf (encoding s) (eventMessage t))
                 (send_error pf hdl)
               \<in> set (drop (length (trace st)) (trace (run_task pf t st)))"
      unfolding send_in_broadcast using assms(2) by blast
    then show "\<exists>opc payload ec. Send hdl opc payload ec
                \<in> set (drop (length (trace st)) (trace (run_task pf t st)))"
      by blast
  qed
  have what: "\<forall>opc payload ec. Send hdl opc payload ec
                \<in> set (drop (length (trace st)) (trace (run_task pf t st)))
              \<longrightarrow> opc = frame_of (encoding s)
                  \<and> payload = encode pf (encoding s) (eventMessage t)"
  proof (intro allI impI)
    fix opc payload ec
    assume "Send hdl opc payload ec
                \<in> set (drop (length (trace st)) (trace (run_task pf t st)))"
    then obtain s' where "(hdl, s') \<in> set (sessions st)" "opc = frame_of (encoding s')"
      "payload = encode pf (encoding s') (eventMessage t)"
      unfolding send_in_broadcast by blast
    then show "opc = frame_of (encoding s) \<and> payload = encode pf (encoding s) (eventMessage t)"
      using only by blast
  qed
  show ?thesis
    by (intro conjI) (rule tr, rule iff, rule what)
qed

theorem broadcast_recipients_witness:
  "distinct (map fst (sessions example_server))
   \<and> (2, snd (sessions example_server ! 1)) \<in> set (sessions example_server)
   \<and> trace (run_task example_platform example_task example_server) =
       [Lock, Send 1 text_frame ''json messageType eventType'' (Some ''broken pipe''), Unlock]
   \<and> trace (run_task example_platform (example_task\<lparr>requiredIntent := 2\<rparr>) example_server) =
       [Lock, Send 1 text_frame ''json messageType eventType'' (Some ''broken pipe''),
        Send 2 binary_frame ''msgpack messageType eventType'' None, Unlock]"
proof -
  have d: "distinct (map fst (sessions example_server))"
    by (simp add: example_server_def)
  have m: "(2, snd (sessions example_server ! 1)) \<in> set (sessions example_server)"
    by (simp add: example_server_def)
  have a: "trace (run_task example_platform example_task example_server) =
       [Lock, Send 1 text_frame ''json messageType eventType'' (Some ''broken pipe''), Unlock]"
    unfolding broadcast_recipients [OF d m, of example_platform example_task, THEN conjunct1]
    by (simp add: example_server_def example_task_def example_platform_def frame_of_def
        encode_def eventMessage_def)
  have b: "trace (run_task example_platform (example_task\<lparr>requiredIntent := 2\<rparr>) example_server) =
       [Lock, Send 1 text_frame ''json messageType eventType'' (Some ''broken pipe''),
        Send 2 binary_frame ''msgpack messageType eventType'' None, Unlock]"
    unfolding broadcast_recipients [OF d m, of example_platform "example_task\<lparr>requiredIntent := 2\<rparr>",
        THEN conjunct1]
    by (simp add: example_server_def example_task_def example_platform_def frame_of_def
        encode_def eventMessage_def)
  show ?thesis
    by (intro conjI) (rule d, rule m, rule a, rule b)
qed

lemma counters_emit [simp]: "counters (emit e st) = counters st"
  by (simp add: counters_def)

lemma counters_with_session:
  assumes "\<And>s. incomingMessages (f s) = incomingMessages s"
    and "\<And>s. outgoingMessages (f s) = outgoingMessages s"
  shows "counters (with_session hdl f st) = counters st"
  using assms by (simp add: counters_def modify_def)

lemma counters_send_hello: "counters (send_hello pf hdl salt st) = counters st"
  unfolding send_hello_eq by (simp add: counters_with_session)

lemma counters_opened:
  "counters (opened hdl conn now st) = counters (st\<lparr>sessions := subscript hdl (sessions st)\<rparr>)"
proof -
  have "counters (opened hdl conn now st) =
          counters (emit Unlock ((emit Lock st)\<lparr>sessions := subscript hdl (sessions st)\<rparr>))"
    unfolding opened_def by (simp add: counters_with_session)
  then show ?thesis by (simp add: counters_def)
qed

lemma counters_onOpen:
  "counters (onOpen pf hdl conn now salt st) =
     counters (st\<lparr>sessions := subscript hdl (sessions st)\<rparr>)"
proof -
  consider (absent) "content_type conn = []"
    | (json) "content_type conn = ''application/json''"
    | (msgpack) "content_type conn = ''application/msgpack''"
    | (other) "content_type conn \<noteq> []" "content_type conn \<noteq> ''application/json''"
        "content_type conn \<noteq> ''application/msgpack''"
    by blast
  then show ?thesis
  proof cases
    case absent
    show ?thesis
      unfolding onOpen_valid_eq(1) [OF absent] counters_send_hello counters_opened ..
  next
    case json
    show ?thesis
      unfolding onOpen_valid_eq(2) [OF json] counters_send_hello
      by (simp add: counters_with_session counters_opened)
  next
    case msgpack
    show ?thesis
      unfolding onOpen_valid_eq(3) [OF msgpack] counters_send_hello
      by (simp add: counters_with_session counters_opened)
  next
    case other
    show ?thesis
      unfolding onOpen_invalid_eq [OF other] by (simp add: counters_opened)
  qed
qed

text \<open>
  C2, as the code has it. \<^verbatim>\<open>onMessage\<close> does nothing: it changes no counter and
  dispatches nothing. Neither the greeting of \<^verbatim>\<open>onOpen\<close> nor the sends of a broadcast
  task change a counter: after \<^verbatim>\<open>onOpen\<close> the counters are those of the table with the
  entry of the handle added when it was missing, and a broadcast task leaves the whole
  table as it was. \<^verbatim>\<open>GetWebSocketSessions\<close> and \<^verbatim>\<open>onClose\<close>, which read the
  counters, do not change them either: the first leaves them all, the second drops those
  of the closed connection with its entry.
\<close>

theorem counters_never_incremented:
  "onMessage hdl message st = st
   \<and> counters (run_task pf t st) = counters st
   \<and> sessions (run_task pf t st) = sessions st
   \<and> counters (onOpen pf hdl conn now salt st) =
       counters (st\<lparr>sessions := subscript hdl (sessions st)\<rparr>)
   \<and> counters (snd (GetWebSocketSessions st)) = counters st
   \<and> counters (onClose hdl conn st) = filter (\<lambda>c. fst c \<noteq> hdl) (counters st)"
proof -
  have a: "onMessage hdl message st = st"
    by (simp add: onMessage_def)
  have b: "counters (run_task pf t st) = counters st" "sessions (run_task pf t st) = sessions st"
    by (simp_all add: counters_def)
  have c: "counters (snd (GetWebSocketSessions st)) = counters st"
    by (simp add: GetWebSocketSessions_def counters_def)
  have d: "counters (onClose hdl conn st) = filter (\<lambda>c. fst c \<noteq> hdl) (counters st)"
    by (simp add: onClose_eq counters_def erase_def filter_map comp_def)
  show ?thesis
    by (intro conjI) (rule a, rule b(1), rule b(2), rule counters_onOpen, rule c, rule d)
qed

text \<open>
  C2 fails as stated: the broadcast below sends a frame to session 1 and the greeting
  below sends a frame to connection 7, and the \<^verbatim>\<open>outgoingMessages\<close> counter of either
  session is the same before and after the send, not one more; \<^verbatim>\<open>onMessage\<close> for
  session 1 leaves its \<^verbatim>\<open>incomingMessages\<close> counter as it was.
\<close>

theorem counters_incremented_counterexample:
  "trace (run_task example_platform example_task example_server) =
     [Lock, Send 1 text_frame ''json messageType eventType'' (Some ''broken pipe''), Unlock]
   \<and> outgoingMessages (session_at 1 example_server) = 0
   \<and> outgoingMessages (session_at 1 (run_task example_platform example_task example_server)) = 0
   \<and> trace (onOpen example_platform 7 (example_connection []) 1000 ''c7'' example_server) =
     [Lock, Unlock,
      Send 7 text_frame ''json messageType obsWebSocketVersion rpcVersion authentication'' None]
   \<and> outgoingMessages (session_at 7 (onOpen example_platform 7 (example_connection []) 1000 ''c7''
         example_server)) = 0
   \<and> incomingMessages (session_at 1 example_server) = 0
   \<and> incomingMessages (session_at 1 (onMessage 1 ''{}'' example_server)) = 0"
proof -
  have a: "trace (run_task example_platform example_task example_server) =
     [Lock, Send 1 text_frame ''json messageType eventType'' (Some ''broken pipe''), Unlock]"
    unfolding trace_run_task
    by (simp add: example_server_def example_task_def example_platform_def frame_of_def
        encode_def eventMessage_def eligible_def deliver_def)
  have b: "outgoingMessages (session_at 1 example_server) = 0"
    "incomingMessages (session_at 1 example_server) = 0"
    by (simp_all add: session_at_def example_server_def)
  have c: "outgoingMessages (session_at 1 (run_task example_platform example_task example_server)) = 0"
    using b by (simp add: session_at_def)
  have ct: "content_type (example_connection []) = []"
    by (simp add: example_connection_def)
  have s7: "session_at 7 example_server = WebSocketSession_default"
    by (simp add: session_at_def example_server_def)
  have ex: "authenticationRequired example_server" "authenticationSalt example_server = ''salt''"
    "trace example_server = []"
    by (simp_all add: example_server_def)
  have d: "trace (onOpen example_platform 7 (example_connection []) 1000 ''c7'' example_server) =
     [Lock, Unlock,
      Send 7 text_frame ''json messageType obsWebSocketVersion rpcVersion authentication'' None]"
    unfolding onOpen_valid_eq(1) [OF ct] send_hello_eq
    by (simp add: trace_opened session_at_opened s7 ex example_platform_def frame_of_def
        encode_def helloMessage_def WebSocketSession_default_def)
  have e: "outgoingMessages (session_at 7 (onOpen example_platform 7 (example_connection []) 1000 ''c7''
         example_server)) = 0"
    unfolding onOpen_valid_eq(1) [OF ct] send_hello_eq
    by (simp add: session_at_with_session session_at_opened s7 ex WebSocketSession_default_def)
  have f: "incomingMessages (session_at 1 (onMessage 1 ''{}'' example_server)) = 0"
    using b by (simp add: onMessage_def)
  show ?thesis
    by (intro conjI) (rule a, rule b(1), rule c, rule d, rule e, rule b(2), rule f)
qed

lemma is_log_deliver: "filter is_log (map (deliver pf msg) ps) = []"
  by (induction ps) (simp_all add: deliver_def)

lemma encode_send_error:
  "encode (pf\<lparr>send_error := err\<rparr>) enc j = encode pf enc j"
  by (cases enc) (simp_all add: encode_def)

lemma send_call_deliver:
  "send_call (deliver (pf\<lparr>send_error := err\<rparr>) msg p) = send_call (deliver pf msg p)"
  by (simp add: deliver_def encode_send_error)

text \<open>
  C4, as the code has it. The error code a send of a broadcast task leaves is never read:
  the task logs nothing, whatever the sends return, and the sends it makes (to which
  connection, which frame, which payload) are the same whichever of them fail. So every
  identified, subscribed session of the table is sent the event, also after a send to a
  session before it has failed.
\<close>

theorem broadcast_ignores_send_errors:
  assumes "(hdl, s) \<in> set (sessions st)" and "isIdentified s"
    and "(eventSubscriptions s AND requiredIntent t) \<noteq> 0"
  shows "filter is_log (trace (run_task (pf\<lparr>send_error := err\<rparr>) t st)) = filter is_log (trace st)
         \<and> map send_call (trace (run_task (pf\<lparr>send_error := err\<rparr>) t st)) =
             map send_call (trace (run_task pf t st))
         \<and> Send hdl (frame_of (encoding s)) (encode pf (encoding s) (eventMessage t)) (err hdl)
             \<in> set (drop (length (trace st)) (trace (run_task (pf\<lparr>send_error := err\<rparr>) t st)))"
proof -
  let ?pf = "pf\<lparr>send_error := err\<rparr>"
  have logs: "filter is_log (trace (run_task ?pf t st)) = filter is_log (trace st)"
    by (simp add: trace_run_task is_log_deliver)
  have calls: "map send_call (trace (run_task ?pf t st)) = map send_call (trace (run_task pf t st))"
    by (simp add: trace_run_task send_call_deliver)
  have "eligible (requiredIntent t) (hdl, s)"
    using assms(2,3) by (simp add: eligible_def)
  then have "Send hdl (frame_of (encoding s)) (encode ?pf (encoding s) (eventMessage t))
               (send_error ?pf hdl)
             \<in> set (drop (length (trace st)) (trace (run_task ?pf t st)))"
    unfolding send_in_broadcast using assms(1) by blast
  then have sent: "Send hdl (frame_of (encoding s)) (encode pf (encoding s) (eventMessage t)) (err hdl)
             \<in> set (drop (length (trace st)) (trace (run_task ?pf t st)))"
    by (simp add: encode_send_error)
  show ?thesis
    by (intro conjI) (rule logs, rule calls, rule sent)
qed

theorem broadcast_ignores_send_errors_witness:
  "(2, snd (sessions example_server ! 1)) \<in> set (sessions example_server)
   \<and> isIdentified (snd (sessions example_server ! 1))
   \<and> (eventSubscriptions (snd (sessions example_server ! 1)) AND 2) \<noteq> 0
   \<and> send_error example_platform 1 = Some ''broken pipe''
   \<and> Send 2 binary_frame ''msgpack messageType eventType'' None
       \<in> set (trace (run_task example_platform (example_task\<lparr>requiredIntent := 2\<rparr>) example_server))
   \<and> filter is_log (trace (run_task example_platform (example_task\<lparr>requiredIntent := 2\<rparr>)
         example_server)) = []"
proof -
  let ?s = "snd (sessions example_server ! 1)"
  let ?t = "example_task\<lparr>requiredIntent := 2\<rparr>"
  have m: "(2, ?s) \<in> set (sessions example_server)"
    by (simp add: example_server_def)
  have i: "isIdentified ?s"
    by (simp add: example_server_def)
  have e: "(eventSubscriptions ?s AND requiredIntent ?t) \<noteq> 0"
    by (simp add: example_server_def example_task_def)
  have p: "example_platform\<lparr>send_error := send_error example_platform\<rparr> = example_platform"
    by simp
  have tr: "trace example_server = []"
    by (simp add: example_server_def)
  have enc: "encoding ?s = MsgPack"
    by (simp add: example_server_def)
  have msg: "encode example_platform MsgPack (eventMessage ?t) = ''msgpack messageType eventType''"
    by (simp add: encode_def example_platform_def eventMessage_def example_task_def)
  have err: "send_error example_platform 1 = Some ''broken pipe''" "send_error example_platform 2 = None"
    by (simp_all add: example_platform_def)
  note w = broadcast_ignores_send_errors [OF m i e, where pf = example_platform
      and err = "send_error example_platform",
      unfolded p tr enc msg err]
  have a: "Send 2 binary_frame ''msgpack messageType eventType'' None
       \<in> set (trace (run_task example_platform ?t example_server))"
    using w by (simp add: frame_of_def)
  have b: "filter is_log (trace (run_task example_platform ?t example_server)) = []"
    using w by simp
  show ?thesis
    using m i e err(1) a b by (simp add: example_task_def)
qed

text \<open>
  C4 fails as stated: in the broadcast below the send to session 1 returns an error, and
  the task logs nothing.
\<close>

theorem broadcast_logs_send_error_counterexample:
  "trace (run_task example_platform example_task example_server) =
     [Lock, Send 1 text_frame ''json messageType eventType'' (Some ''broken pipe''), Unlock]
   \<and> filter is_log (trace (run_task example_platform example_task example_server)) = []"
proof -
  have a: "trace (run_task example_platform example_task example_server) =
     [Lock, Send 1 text_frame ''json messageType eventType'' (Some ''broken pipe''), Unlock]"
    unfolding trace_run_task
    by (simp add: example_server_def example_task_def example_platform_def frame_of_def
        encode_def eventMessage_def eligible_def deliver_def)
  show ?thesis unfolding a by simp
qed

section \<open>Stopping the server\<close>

lemma blog_fields [simp]:
  "trace (blog lvl msg st) = trace st @ [Blog lvl msg]"
  "sessions (blog lvl msg st) = sessions st"
  "listening (blog lvl msg st) = listening st"
  "threadPool (blog lvl msg st) = threadPool st"
  "serverThread (blog lvl msg st) = serverThread st"
  by (simp_all add: blog_def)

lemma stop_session_fields [simp]:
  "sessions (stop_session pf hdl st) = sessions st"
  "listening (stop_session pf hdl st) = listening st"
  "threadPool (stop_session pf hdl st) = threadPool st"
  "serverThread (stop_session pf hdl st) = serverThread st"
  by (simp_all add: stop_session_def Let_def split: option.splits)

lemma prefix_trace_stop_session: "prefix (trace st) (trace (stop_session pf hdl st))"
  by (simp add: stop_session_def Let_def split: option.splits)

lemma fold_stop_session:
  "sessions (fold (stop_session pf) hs st) = sessions st
   \<and> listening (fold (stop_session pf) hs st) = listening st
   \<and> threadPool (fold (stop_session pf) hs st) = threadPool st
   \<and> serverThread (fold (stop_session pf) hs st) = serverThread st
   \<and> prefix (trace st) (trace (fold (stop_session pf) hs st))"
proof (induction hs arbitrary: st)
  case Nil
  then show ?case by simp
next
  case (Cons h hs)
  have "prefix (trace st) (trace (stop_session pf h st))"
    by (rule prefix_trace_stop_session)
  moreover have "prefix (trace (stop_session pf h st)) (trace (fold (stop_session pf) hs (stop_session pf h st)))"
    using Cons [of "stop_session pf h st"] by blast
  ultimately have "prefix (trace st) (trace (fold (stop_session pf) hs (stop_session pf h st)))"
    by (rule prefix_order.trans)
  then show ?case
    using Cons [of "stop_session pf h st"] by simp
qed

lemma fold_run_task_eq:
  "fold (run_task pf) ts st =
     st\<lparr>trace := trace st @ concat (map (task_events pf (sessions st)) ts)\<rparr>"
proof (induction ts arbitrary: st)
  case Nil
  then show ?case by simp
next
  case (Cons t ts)
  have "fold (run_task pf) (t # ts) st = fold (run_task pf) ts (run_task pf t st)"
    by simp
  also have "\<dots> = (run_task pf t st)\<lparr>trace := trace (run_task pf t st)
                 @ concat (map (task_events pf (sessions (run_task pf t st))) ts)\<rparr>"
    by (rule Cons.IH)
  also have "\<dots> = st\<lparr>trace := trace st @ concat (map (task_events pf (sessions st)) (t # ts))\<rparr>"
    by (simp add: run_task_eq task_events_def)
  finally show ?case .
qed

lemma waitForDone_eq:
  "waitForDone pf st =
     st\<lparr>threadPool := [],
        trace := trace st @ concat (map (task_events pf (sessions st)) (threadPool st))
                   @ [WaitForDone]\<rparr>"
  by (simp add: waitForDone_def fold_run_task_eq emit_def)

lemma waitForDone_fields:
  "sessions (waitForDone pf st) = sessions st"
  "listening (waitForDone pf st) = listening st"
  "threadPool (waitForDone pf st) = []"
  "serverThread (waitForDone pf st) = serverThread st"
  by (simp_all add: waitForDone_eq)

lemma send_hello_fields [simp]:
  "listening (send_hello pf hdl salt st) = listening st"
  "threadPool (send_hello pf hdl salt st) = threadPool st"
  "serverThread (send_hello pf hdl salt st) = serverThread st"
  "prefix (trace st) (trace (send_hello pf hdl salt st))"
  unfolding send_hello_eq by simp_all

lemma onOpen_fields:
  "listening (onOpen pf hdl conn now salt st) = listening st
   \<and> threadPool (onOpen pf hdl conn now salt st) = threadPool st
   \<and> serverThread (onOpen pf hdl conn now salt st) = serverThread st
   \<and> prefix (trace st) (trace (onOpen pf hdl conn now salt st))"
proof -
  have p: "prefix (trace st) (trace (opened hdl conn now st))"
    by (simp add: trace_opened)
  have q: "prefix (trace st) (trace (send_hello pf hdl salt s))"
    if "trace s = trace (opened hdl conn now st)" for s
    using prefix_order.trans [OF p, of "trace (send_hello pf hdl salt s)"] that
    by (simp add: send_hello_fields(4) [of s, unfolded that])
  consider (absent) "content_type conn = []"
    | (json) "content_type conn = ''application/json''"
    | (msgpack) "content_type conn = ''application/msgpack''"
    | (other) "content_type conn \<noteq> []" "content_type conn \<noteq> ''application/json''"
        "content_type conn \<noteq> ''application/msgpack''"
    by blast
  then show ?thesis
  proof cases
    case absent
    show ?thesis unfolding onOpen_valid_eq(1) [OF absent] using q by simp
  next
    case json
    show ?thesis unfolding onOpen_valid_eq(2) [OF json] using q by simp
  next
    case msgpack
    show ?thesis unfolding onOpen_valid_eq(3) [OF msgpack] using q by simp
  next
    case other
    show ?thesis unfolding onOpen_invalid_eq [OF other] by (simp add: trace_opened)
  qed
qed

lemma run_io_fields:
  "listening (run_io pf ev st) = listening st
   \<and> threadPool (run_io pf ev st) = threadPool st
   \<and> serverThread (run_io pf ev st) = serverThread st
   \<and> prefix (trace st) (trace (run_io pf ev st))"
proof (cases ev)
  case (Opened hdl conn now salt)
  then show ?thesis using onOpen_fields [of pf hdl conn now salt st] by simp
next
  case (Closed hdl conn)
  then show ?thesis by (simp add: onClose_eq)
next
  case (Message hdl m)
  then show ?thesis by (simp add: onMessage_def)
qed

lemma run_pool_fields:
  "sessions (run_pool pf ev st) = sessions st
   \<and> listening (run_pool pf ev st) = listening st
   \<and> serverThread (run_pool pf ev st) = serverThread st
   \<and> prefix (trace st) (trace (run_pool pf ev st))"
proof (cases ev)
  case (Submit r ty data)
  then show ?thesis by (simp add: BroadcastEvent_def)
next
  case RunNext
  show ?thesis
  proof (cases "threadPool st")
    case Nil
    with RunNext show ?thesis by (simp add: pool_step_def)
  next
    case (Cons t ts)
    with RunNext show ?thesis by (simp add: pool_step_def trace_run_task)
  qed
qed

lemma act_fields:
  "listening (act pf a st) = listening st
   \<and> serverThread (act pf a st) = serverThread st
   \<and> prefix (trace st) (trace (act pf a st))"
proof (cases a)
  case (Io ev)
  then show ?thesis using run_io_fields [of pf ev st] by simp
next
  case (Pool ev)
  then show ?thesis using run_pool_fields [of pf ev st] by simp
qed

lemma fold_act:
  "listening (fold (act pf) acts st) = listening st
   \<and> serverThread (fold (act pf) acts st) = serverThread st
   \<and> prefix (trace st) (trace (fold (act pf) acts st))"
proof (induction acts arbitrary: st)
  case Nil
  then show ?case by simp
next
  case (Cons a acts)
  have "prefix (trace st) (trace (act pf a st))"
    using act_fields [of pf a st] by blast
  moreover have "prefix (trace (act pf a st)) (trace (fold (act pf) acts (act pf a st)))"
    using Cons [of "act pf a st"] by blast
  ultimately have "prefix (trace st) (trace (fold (act pf) acts (act pf a st)))"
    by (rule prefix_order.trans)
  then show ?case
    using Cons [of "act pf a st"] act_fields [of pf a st] by simp
qed

lemma poll_Some:
  "poll pf sched st = Some st' \<Longrightarrow>
     sessions st' = [] \<and> listening st' = listening st
     \<and> serverThread st' = serverThread st \<and> prefix (trace st) (trace st')"
proof (induction sched arbitrary: st)
  case Nil
  then show ?case by (simp split: if_splits)
next
  case (Cons acts sched)
  show ?case
  proof (cases "sessions st = []")
    case True
    with Cons.prems show ?thesis by simp
  next
    case False
    let ?s = "fold (act pf) acts (emit (Sleep 10) st)"
    from False Cons.prems have "poll pf sched ?s = Some st'" by simp
    then have IH: "sessions st' = [] \<and> listening st' = listening ?s
       \<and> serverThread st' = serverThread ?s \<and> prefix (trace ?s) (trace st')"
      by (rule Cons.IH)
    have f: "listening ?s = listening st \<and> serverThread ?s = serverThread st
       \<and> prefix (trace (emit (Sleep 10) st)) (trace ?s)"
      using fold_act [of pf acts "emit (Sleep 10) st"] by simp
    have "prefix (trace st) (trace (emit (Sleep 10) st))" by simp
    then have "prefix (trace st) (trace st')"
      using f IH by (meson prefix_order.trans)
    then show ?thesis using IH f by simp
  qed
qed

lemma teardown_fields:
  "sessions (teardown pf st) = sessions st"
  "listening (teardown pf st) = False"
  "threadPool (teardown pf st) = threadPool st"
  "serverThread (teardown pf st) = serverThread st"
  using fold_stop_session [of pf "map fst (sessions st)"
      "emit Lock (emit StopListening (st\<lparr>listening := False\<rparr>))"]
  by (simp_all add: teardown_def)

lemma Stop_listening_eq:
  "listening st \<Longrightarrow>
     Stop pf waiting sched st =
       (case poll pf sched (before_poll pf waiting st) of
          None \<Rightarrow> None
        | Some s \<Rightarrow>
            Some (blog LOG_INFO ''[WebSocketServer::Stop] Server stopped successfully'' (join s)))"
  by (simp add: Stop_def before_poll_def teardown_def Let_def)

lemma before_poll_fields:
  "listening (before_poll pf waiting st) = False"
  "threadPool (before_poll pf waiting st) = []"
  "serverThread (before_poll pf waiting st) = serverThread st"
  using fold_act [of pf waiting "teardown pf st"]
  by (simp_all add: before_poll_def waitForDone_fields teardown_fields)

lemma trace_before_poll:
  "trace (before_poll pf waiting st) =
     trace (fold (act pf) waiting (teardown pf st))
       @ concat (map (task_events pf (sessions (fold (act pf) waiting (teardown pf st))))
                   (threadPool (fold (act pf) waiting (teardown pf st))))
       @ [WaitForDone]"
  by (simp add: before_poll_def waitForDone_eq)

lemma join_fields [simp]:
  "trace (join st) = trace st @ [Join]"
  "sessions (join st) = sessions st"
  "listening (join st) = listening st"
  "threadPool (join st) = threadPool st"
  "serverThread (join st) = False"
  by (simp_all add: join_def)

lemma fold_run_pool_empty:
  "sessions st = [] \<Longrightarrow>
     sessions (fold (run_pool pf) evs st) = []
     \<and> filter is_send (trace (fold (run_pool pf) evs st)) = filter is_send (trace st)"
proof (induction evs arbitrary: st)
  case Nil
  then show ?case by simp
next
  case (Cons ev evs)
  have s: "sessions (run_pool pf ev st) = []"
    using run_pool_fields [of pf ev st] Cons.prems by simp
  have t: "filter is_send (trace (run_pool pf ev st)) = filter is_send (trace st)"
  proof (cases ev)
    case (Submit r ty data)
    then show ?thesis by (simp add: BroadcastEvent_def)
  next
    case RunNext
    show ?thesis
    proof (cases "threadPool st")
      case Nil
      with RunNext show ?thesis by (simp add: pool_step_def)
    next
      case (Cons t ts)
      with RunNext Cons.prems \<open>sessions st = []\<close> show ?thesis
        by (simp add: pool_step_def trace_run_task)
    qed
  qed
  show ?case
    using Cons.IH [OF s] t by simp
qed

text \<open>
  C5. A call of \<^verbatim>\<open>Stop\<close> on a listening server that returns, whatever the other
  threads do while it waits. When \<^verbatim>\<open>waitForDone\<close> returned, the pool had run every
  task that was queued (the trace has, for each of them in turn, its lock, its sends and
  its unlock, and then \<^verbatim>\<open>WaitForDone\<close>) and no task was left. The polling loop was then
  left in a state whose table was empty, and all \<^verbatim>\<open>Stop\<close> did after that was to join the
  I/O thread and to log. So in the server \<^verbatim>\<open>Stop\<close> returns the table is empty, the
  server does not listen and the I/O thread has ended. From then on nothing is sent:
  whatever calls of \<^verbatim>\<open>BroadcastEvent\<close> and runs of queued tasks follow (also of a task
  queued during the loop and not yet run), the table stays empty and the trace gains no
  send.
\<close>

theorem Stop_returns_drained:
  assumes "listening st" and "Stop pf waiting sched st = Some st'"
  shows "(\<exists>loop_exit polled.
            trace (before_poll pf waiting st) =
              trace (fold (act pf) waiting (teardown pf st))
                @ concat (map (task_events pf (sessions (fold (act pf) waiting (teardown pf st))))
                            (threadPool (fold (act pf) waiting (teardown pf st))))
                @ [WaitForDone]
            \<and> threadPool (before_poll pf waiting st) = []
            \<and> poll pf sched (before_poll pf waiting st) = Some loop_exit
            \<and> trace loop_exit = trace (before_poll pf waiting st) @ polled
            \<and> sessions loop_exit = []
            \<and> st' = blog LOG_INFO ''[WebSocketServer::Stop] Server stopped successfully''
                      (join loop_exit))
         \<and> sessions st' = [] \<and> \<not> listening st' \<and> \<not> serverThread st'
         \<and> (\<forall>pf' later.
               sessions (fold (run_pool pf') later st') = []
               \<and> filter is_send (trace (fold (run_pool pf') later st')) =
                   filter is_send (trace st'))"
proof -
  let ?done = "blog LOG_INFO ''[WebSocketServer::Stop] Server stopped successfully''"
  obtain s where s: "poll pf sched (before_poll pf waiting st) = Some s"
    and st': "st' = ?done (join s)"
    using assms by (auto simp: Stop_listening_eq split: option.splits)
  have p: "sessions s = []" "listening s = False"
    "prefix (trace (before_poll pf waiting st)) (trace s)"
    using poll_Some [OF s] by (simp_all add: before_poll_fields)
  obtain polled where q: "trace s = trace (before_poll pf waiting st) @ polled"
    using p(3) by (auto simp: prefix_def)
  have a: "\<exists>loop_exit polled.
            trace (before_poll pf waiting st) =
              trace (fold (act pf) waiting (teardown pf st))
                @ concat (map (task_events pf (sessions (fold (act pf) waiting (teardown pf st))))
                            (threadPool (fold (act pf) waiting (teardown pf st))))
                @ [WaitForDone]
            \<and> threadPool (before_poll pf waiting st) = []
            \<and> poll pf sched (before_poll pf waiting st) = Some loop_exit
            \<and> trace loop_exit = trace (before_poll pf waiting st) @ polled
            \<and> sessions loop_exit = []
            \<and> st' = ?done (join loop_exit)"
    using trace_before_poll [of pf waiting st] before_poll_fields(2) [of pf waiting st]
      s q p(1) st'
    by blast
  have b: "sessions st' = []" "\<not> listening st'" "\<not> serverThread st'"
    by (simp_all add: st' p)
  have c: "\<forall>pf' later.
               sessions (fold (run_pool pf') later st') = []
               \<and> filter is_send (trace (fold (run_pool pf') later st')) =
                   filter is_send (trace st')"
    using fold_run_pool_empty [OF b(1)] by blast
  show ?thesis
    by (intro conjI) (rule a, rule b(1), rule b(2), rule b(3), rule c)
qed

text \<open>
  C6. After a call of \<^verbatim>\<open>Stop\<close> on a listening server has returned, a second call
  (whatever the transport and the other threads do) returns at once: it adds the warning
  to the log and changes nothing else of the server.
\<close>

theorem Stop_twice:
  assumes "listening st" and "Stop pf waiting sched st = Some st'"
  shows "Stop pf' waiting' sched' st' =
           Some (st'\<lparr>trace := trace st' @ [Blog LOG_WARNING
             ''[WebSocketServer::Stop] Call to Stop() but the server is not listening.'']\<rparr>)"
proof -
  obtain s where s: "poll pf sched (before_poll pf waiting st) = Some s"
    and st': "st' = blog LOG_INFO ''[WebSocketServer::Stop] Server stopped successfully'' (join s)"
    using assms by (auto simp: Stop_listening_eq split: option.splits)
  have "listening s = False"
    using poll_Some [OF s] by (simp add: before_poll_fields)
  then have "\<not> listening st'"
    by (simp add: st')
  then show ?thesis
    by (simp add: Stop_def blog_def emit_def)
qed

lemma sessions_fold_Closed:
  "sessions (fold (act pf) (map (\<lambda>hdl. Io (Closed hdl (conn hdl))) hs) st) =
     filter (\<lambda>p. fst p \<notin> set hs) (sessions st)"
proof (induction hs arbitrary: st)
  case Nil
  then show ?case by simp
next
  case (Cons h hs)
  have "sessions (fold (act pf) (map (\<lambda>hdl. Io (Closed hdl (conn hdl))) (h # hs)) st) =
          filter (\<lambda>p. fst p \<notin> set hs) (sessions (onClose h (conn h) st))"
    using Cons [of "onClose h (conn h) st"] by simp
  also have "\<dots> = filter (\<lambda>p. fst p \<notin> set (h # hs)) (sessions st)"
    by (simp add: onClose_eq erase_def conj_commute)
  finally show ?case .
qed

text \<open>\<^verbatim>\<open>Stop\<close> returns when the I/O thread runs the close handler of every session
  of the table.\<close>

lemma Stop_returns:
  "\<exists>st'. Stop pf [] [map (\<lambda>hdl. Io (Closed hdl (conn hdl))) (map fst (sessions st))] st = Some st'"
proof (cases "listening st")
  case False
  then show ?thesis by (simp add: Stop_def)
next
  case True
  let ?b = "before_poll pf [] st"
  let ?evs = "map (\<lambda>hdl. Io (Closed hdl (conn hdl))) (map fst (sessions st))"
  let ?s = "fold (act pf) ?evs (emit (Sleep 10) ?b)"
  have sb: "sessions ?b = sessions st"
    by (simp add: before_poll_def waitForDone_fields teardown_fields)
  have "sessions ?s = filter (\<lambda>p. fst p \<notin> set (map fst (sessions st))) (sessions st)"
    unfolding sessions_fold_Closed by (simp add: sb)
  also have "\<dots> = []"
    by (simp add: filter_empty_conv)
  finally have e: "sessions ?s = []" .
  have "poll pf [?evs] ?b = (if sessions ?b = [] then Some ?b else poll pf [] ?s)"
    by (simp only: poll.simps)
  also have "\<dots> = (if sessions ?b = [] then Some ?b else Some ?s)"
    by (simp only: poll.simps e if_True refl)
  finally obtain s where "poll pf [?evs] ?b = Some s"
    by (cases "sessions ?b = []") simp_all
  then show ?thesis
    by (simp only: Stop_listening_eq [OF True] option.case) blast
qed

lemma example_Stop:
  "Stop example_platform [] example_schedule example_server = Some example_stopped"
  by (simp add: Stop_def Let_def example_schedule_def example_server_def example_platform_def
      example_connection_def example_stopped_def stop_session_def waitForDone_def join_def
      blog_def emit_def onClose_eq session_at_def snapshot_def erase_def)

lemma example_Stop_never_returns:
  "Stop example_platform [] [] example_server = None"
  by (simp add: Stop_def Let_def example_server_def example_platform_def
      stop_session_def waitForDone_def emit_def)

lemma example_busy_Stop:
  "Stop example_platform example_waiting example_busy_schedule example_busy_server =
     Some example_busy_stopped"
  by (simp add: Stop_def Let_def example_busy_schedule_def example_waiting_def
      example_busy_server_def example_server_def example_platform_def example_task_def
      example_connection_def example_busy_stopped_def stop_session_def waitForDone_def
      run_task_eq eligible_def deliver_def frame_of_def encode_def eventMessage_def
      BroadcastEvent_def join_def blog_def emit_def onClose_eq session_at_def snapshot_def
      erase_def)

theorem Stop_returns_drained_witness:
  "listening example_busy_server
   \<and> threadPool example_busy_server = [example_task]
   \<and> Stop example_platform example_waiting example_busy_schedule example_busy_server =
       Some example_busy_stopped
   \<and> sessions example_busy_stopped = []
   \<and> threadPool example_busy_stopped =
       [\<lparr>requiredIntent = 2, eventType = ''ExitStarted'', eventData = JNull\<rparr>]
   \<and> filter is_send (trace (fold (run_pool example_platform) [RunNext] example_busy_stopped)) =
       [Send 1 text_frame ''json messageType eventType'' (Some ''broken pipe''),
        Send 1 text_frame ''json messageType eventType'' (Some ''broken pipe''),
        Send 2 binary_frame ''msgpack messageType eventType'' None]"
proof -
  have l: "listening example_busy_server"
    by (simp add: example_busy_server_def example_server_def)
  have q: "threadPool example_busy_server = [example_task]"
    by (simp add: example_busy_server_def)
  note w = Stop_returns_drained [OF l example_busy_Stop]
  have e: "sessions example_busy_stopped = []"
    using w by (rule conjunct2 [THEN conjunct1])
  have t: "threadPool example_busy_stopped =
       [\<lparr>requiredIntent = 2, eventType = ''ExitStarted'', eventData = JNull\<rparr>]"
    by (simp add: example_busy_stopped_def)
  have "filter is_send (trace (fold (run_pool example_platform) [RunNext] example_busy_stopped)) =
          filter is_send (trace example_busy_stopped)"
    using w by blast
  also have "\<dots> =
       [Send 1 text_frame ''json messageType eventType'' (Some ''broken pipe''),
        Send 1 text_frame ''json messageType eventType'' (Some ''broken pipe''),
        Send 2 binary_frame ''msgpack messageType eventType'' None]"
    by (simp add: example_busy_stopped_def)
  finally have s: "filter is_send (trace (fold (run_pool example_platform) [RunNext] example_busy_stopped)) =
       [Send 1 text_frame ''json messageType eventType'' (Some ''broken pipe''),
        Send 1 text_frame ''json messageType eventType'' (Some ''broken pipe''),
        Send 2 binary_frame ''msgpack messageType eventType'' None]" .
  show ?thesis
    by (intro conjI) (rule l, rule q, rule example_busy_Stop, rule e, rule t, rule s)
qed

theorem Stop_twice_witness:
  "listening example_server
   \<and> Stop example_platform [] example_schedule example_server = Some example_stopped
   \<and> Stop example_platform [] [] example_stopped =
       Some (example_stopped\<lparr>trace := trace example_stopped @ [Blog LOG_WARNING
         ''[WebSocketServer::Stop] Call to Stop() but the server is not listening.'']\<rparr>)"
proof -
  have l: "listening example_server"
    by (simp add: example_server_def)
  show ?thesis
    using l example_Stop Stop_twice [OF l example_Stop, of example_platform "[]" "[]"]
    by simp
qed

section \<open>A connection with an unrecognised content type\<close>

lemma keys_act:
  assumes "hdl \<in> set (map fst (sessions st))" and "\<not> closes hdl a"
  shows "hdl \<in> set (map fst (sessions (act pf a st)))"
proof (cases a)
  case (Io ev)
  show ?thesis
  proof (cases ev)
    case (Opened h conn now salt)
    have "set (map fst (subscript h (sessions st))) = insert h (set (map fst (sessions st)))
          \<or> subscript h (sessions st) = sessions st"
      by (auto simp: subscript_def keys_insort_key set_insort_key split: option.splits)
    then show ?thesis
      using assms(1) by (auto simp: Io Opened keys_onOpen)
  next
    case (Closed h conn)
    then have "h \<noteq> hdl"
      using assms(2) Io by simp
    then show ?thesis
      using assms(1) by (auto simp: Io Closed onClose_eq erase_def)
  next
    case (Message h m)
    then show ?thesis
      using assms(1) by (simp add: Io onMessage_def)
  qed
next
  case (Pool ev)
  then show ?thesis
    using assms(1) run_pool_fields [of pf ev st] by simp
qed

lemma keys_fold_act:
  "hdl \<in> set (map fst (sessions st)) \<Longrightarrow> \<forall>a\<in>set acts. \<not> closes hdl a \<Longrightarrow>
     hdl \<in> set (map fst (sessions (fold (act pf) acts st)))"
proof (induction acts arbitrary: st)
  case Nil
  then show ?case by simp
next
  case (Cons a acts)
  have "hdl \<in> set (map fst (sessions (act pf a st)))"
    using Cons.prems by (intro keys_act) simp_all
  moreover have "\<forall>a\<in>set acts. \<not> closes hdl a"
    using Cons.prems by simp
  ultimately have "hdl \<in> set (map fst (sessions (fold (act pf) acts (act pf a st))))"
    by (rule Cons.IH)
  then show ?case by simp
qed

text \<open>
  C1, as the code has it. A connection whose \<^verbatim>\<open>Content-Type\<close> header has a value
  that is not empty and is neither \<^verbatim>\<open>application/json\<close> nor
  \<^verbatim>\<open>application/msgpack\<close>: all \<^verbatim>\<open>onOpen\<close> does to the outside is to close the
  connection with the code \<^verbatim>\<open>InvalidContentType\<close>; no frame is sent. \<^verbatim>\<open>onOpen\<close> does
  not erase the entry it made in the table: when it returns the entry is there, with the
  address and the time set, and it stays there whatever the other threads do (handlers of
  other connections, broadcasts, tasks of the pool), as long as the close handler of the
  connection has not run. Once that handler has run, no session of the connection is in
  the table.
\<close>

theorem onOpen_invalid_content_type:
  assumes "content_type conn \<noteq> []"
    and "content_type conn \<noteq> ''application/json''"
    and "content_type conn \<noteq> ''application/msgpack''"
    and "\<forall>a\<in>set acts. \<not> closes hdl a"
  shows "trace (onOpen pf hdl conn now salt st) =
           trace st @ [Lock, Unlock, ConnClose hdl InvalidContentType
              ''Your HTTP `Content-Type` header specifies an invalid encoding type.'']
         \<and> map_of (sessions (onOpen pf hdl conn now salt st)) hdl =
             Some ((session_at hdl st)\<lparr>remoteAddress := remote_endpoint conn, connectedAt := now\<rparr>)
         \<and> hdl \<in> fst ` set (sessions (fold (act pf') acts (onOpen pf hdl conn now salt st)))
         \<and> hdl \<notin> fst ` set (sessions (onClose hdl conn'
                (fold (act pf') acts (onOpen pf hdl conn now salt st))))"
proof -
  have eq: "onOpen pf hdl conn now salt st =
      emit (ConnClose hdl InvalidContentType
              ''Your HTTP `Content-Type` header specifies an invalid encoding type.'')
        (opened hdl conn now st)"
    using assms(1-3) by (rule onOpen_invalid_eq)
  have tr: "trace (onOpen pf hdl conn now salt st) =
           trace st @ [Lock, Unlock, ConnClose hdl InvalidContentType
              ''Your HTTP `Content-Type` header specifies an invalid encoding type.'']"
    by (simp add: eq trace_opened)
  have entry: "map_of (sessions (onOpen pf hdl conn now salt st)) hdl =
             Some ((session_at hdl st)\<lparr>remoteAddress := remote_endpoint conn, connectedAt := now\<rparr>)"
    by (simp add: eq map_of_opened)
  then have "hdl \<in> set (map fst (sessions (onOpen pf hdl conn now salt st)))"
    by (metis map_of_eq_None_iff option.distinct(1) set_map)
  then have "hdl \<in> set (map fst (sessions (fold (act pf') acts (onOpen pf hdl conn now salt st))))"
    using assms(4) by (rule keys_fold_act)
  then have kept: "hdl \<in> fst ` set (sessions (fold (act pf') acts (onOpen pf hdl conn now salt st)))"
    by simp
  have gone: "hdl \<notin> fst ` set (sessions (onClose hdl conn'
                (fold (act pf') acts (onOpen pf hdl conn now salt st))))"
    by (simp add: onClose_eq keys_erase)
  show ?thesis
    by (intro conjI) (rule tr, rule entry, rule kept, rule gone)
qed

theorem onOpen_invalid_content_type_witness:
  "content_type (example_connection ''text/plain'') \<noteq> []
   \<and> content_type (example_connection ''text/plain'') \<noteq> ''application/json''
   \<and> content_type (example_connection ''text/plain'') \<noteq> ''application/msgpack''
   \<and> list_all (\<lambda>a. \<not> closes 7 a) example_others
   \<and> trace (onOpen example_platform 7 (example_connection ''text/plain'') 1000 ''c7''
         example_server) =
       [Lock, Unlock, ConnClose 7 InvalidContentType
          ''Your HTTP `Content-Type` header specifies an invalid encoding type.'']
   \<and> 7 \<in> fst ` set (sessions (fold (act example_platform) example_others
         (onOpen example_platform 7 (example_connection ''text/plain'') 1000 ''c7''
            example_server)))
   \<and> 7 \<notin> fst ` set (sessions (onClose 7 (example_connection ''text/plain'')
         (fold (act example_platform) example_others
            (onOpen example_platform 7 (example_connection ''text/plain'') 1000 ''c7''
               example_server))))"
proof -
  let ?c = "example_connection ''text/plain''"
  have c: "content_type ?c \<noteq> []" "content_type ?c \<noteq> ''application/json''"
    "content_type ?c \<noteq> ''application/msgpack''"
    by (simp_all add: example_connection_def)
  have n: "\<forall>a\<in>set example_others. \<not> closes 7 a"
    by (simp add: example_others_def)
  have t: "trace example_server = []"
    by (simp add: example_server_def)
  note w = onOpen_invalid_content_type [OF c n, of example_platform 1000 "''c7''" example_server
      example_platform ?c]
  show ?thesis
    using c n w by (simp add: t list_all_iff)
qed

text \<open>
  C1 fails as stated: for the connection 7 below, whose \<^verbatim>\<open>Content-Type\<close> is
  \<^verbatim>\<open>text/plain\<close>, \<^verbatim>\<open>onOpen\<close> closes the connection, and the table it leaves has the
  entry of the connection.
\<close>

theorem onOpen_invalid_content_type_counterexample:
  "content_type (example_connection ''text/plain'') = ''text/plain''
   \<and> sessions example_fresh_server = []
   \<and> trace (onOpen example_platform 7 (example_connection ''text/plain'') 1000 ''c7''
         example_fresh_server) =
       [Lock, Unlock, ConnClose 7 InvalidContentType
          ''Your HTTP `Content-Type` header specifies an invalid encoding type.'']
   \<and> sessions (onOpen example_platform 7 (example_connection ''text/plain'') 1000 ''c7''
         example_fresh_server) =
       [(7, WebSocketSession_default\<lparr>remoteAddress := ''10.0.0.9:51000'', connectedAt := 1000\<rparr>)]"
proof -
  let ?c = "example_connection ''text/plain''"
  have c: "content_type ?c \<noteq> []" "content_type ?c \<noteq> ''application/json''"
    "content_type ?c \<noteq> ''application/msgpack''"
    by (simp_all add: example_connection_def)
  show ?thesis
    unfolding onOpen_invalid_eq [OF c]
    by (simp add: opened_def example_connection_def example_fresh_server_def subscript_def
        modify_def)
qed

section \<open>The form of the connect string\<close>

lemma escapes_no_percent:
  "CHR ''%'' \<notin> set pre \<Longrightarrow> escapes (pre @ s) = escapes s"
  by (induction pre) auto

lemma replace_escapes_no_percent:
  "CHR ''%'' \<notin> set pre \<Longrightarrow> replace_escapes n a (pre @ s) = pre @ replace_escapes n a s"
  by (induction pre) auto

lemma arg_after_prefix:
  assumes "CHR ''%'' \<notin> set pre" and "escapes post = n # ns" and "fold min ns n = m"
    and "replace_escapes m a post = r"
  shows "arg (pre @ post) a = pre @ r"
  using assms by (simp add: arg_def escapes_no_percent replace_escapes_no_percent)

lemma digit_no_percent: "d < 10 \<Longrightarrow> digit d \<noteq> CHR ''%''"
proof -
  assume "d < 10"
  then have "digit d \<in> set ''0123456789''"
    unfolding digit_def by (intro nth_mem) simp
  then show ?thesis by auto
qed

lemma decimal_no_percent: "CHR ''%'' \<notin> set (decimal n)"
proof (induction n rule: decimal.induct)
  case (1 n)
  show ?case
  proof (cases "n < 10")
    case True
    then show ?thesis
      using digit_no_percent [of n] by (auto simp: decimal.simps [of n])
  next
    case False
    then have "CHR ''%'' \<notin> set (decimal (n div 10))"
      by (rule "1.IH")
    moreover have "digit (n mod 10) \<noteq> CHR ''%''"
      by (rule digit_no_percent) simp
    ultimately show ?thesis
      using False by (auto simp: decimal.simps [of n])
  qed
qed

lemma arg_address:
  "arg ''obswebsocket|%1:%2|%3'' a = ''obswebsocket|'' @ a @ '':%2|%3''"
  "arg ''obswebsocket|%1:%2'' a = ''obswebsocket|'' @ a @ '':%2''"
  by (simp_all add: arg_def digit_value_def)

lemma arg_port:
  assumes "CHR ''%'' \<notin> set a"
  shows "arg (''obswebsocket|'' @ a @ '':%2|%3'') p = ''obswebsocket|'' @ a @ '':'' @ p @ ''|%3''"
    and "arg (''obswebsocket|'' @ a @ '':%2'') p = ''obswebsocket|'' @ a @ '':'' @ p"
proof -
  have pre: "CHR ''%'' \<notin> set (''obswebsocket|'' @ a @ '':'')"
    using assms by simp
  have "arg ((''obswebsocket|'' @ a @ '':'') @ ''%2|%3'') p = (''obswebsocket|'' @ a @ '':'') @ (p @ ''|%3'')"
    by (rule arg_after_prefix [OF pre, where n = 2 and ns = "[3]" and m = 2])
       (simp_all add: digit_value_def)
  then show "arg (''obswebsocket|'' @ a @ '':%2|%3'') p = ''obswebsocket|'' @ a @ '':'' @ p @ ''|%3''"
    by simp
  have "arg ((''obswebsocket|'' @ a @ '':'') @ ''%2'') p = (''obswebsocket|'' @ a @ '':'') @ p"
    by (rule arg_after_prefix [OF pre, where n = 2 and ns = "[]" and m = 2])
       (simp_all add: digit_value_def)
  then show "arg (''obswebsocket|'' @ a @ '':%2'') p = ''obswebsocket|'' @ a @ '':'' @ p"
    by simp
qed

lemma arg_password:
  assumes "CHR ''%'' \<notin> set a" and "CHR ''%'' \<notin> set p"
  shows "arg (''obswebsocket|'' @ a @ '':'' @ p @ ''|%3'') pw =
           ''obswebsocket|'' @ a @ '':'' @ p @ ''|'' @ pw"
proof -
  have pre: "CHR ''%'' \<notin> set (''obswebsocket|'' @ a @ '':'' @ p @ ''|'')"
    using assms by simp
  have "arg ((''obswebsocket|'' @ a @ '':'' @ p @ ''|'') @ ''%3'') pw =
          (''obswebsocket|'' @ a @ '':'' @ p @ ''|'') @ pw"
    by (rule arg_after_prefix [OF pre, where n = 3 and ns = "[]" and m = 3])
       (simp_all add: digit_value_def)
  then show ?thesis by simp
qed

text \<open>
  When the address \<^verbatim>\<open>GetLocalAddress\<close> returns has no \<^verbatim>\<open>%\<close> in it (an IPv4
  address in dotted form, or an IPv6 address without a scope identifier, has none), the
  connect string is \<^verbatim>\<open>obswebsocket|\<close>, the address, a colon and the port in decimal,
  followed by \<^verbatim>\<open>|\<close> and the password when authentication is required, and by nothing
  when it is not.
\<close>

lemma GetConnectString_plain_address:
  assumes "CHR ''%'' \<notin> set (GetLocalAddress pf)"
  shows "GetConnectString pf st =
           (if authenticationRequired st
            then ''obswebsocket|'' @ GetLocalAddress pf @ '':'' @ decimal (unat (serverPort st))
                   @ ''|'' @ serverPassword st
            else ''obswebsocket|'' @ GetLocalAddress pf @ '':'' @ decimal (unat (serverPort st)))"
  unfolding GetConnectString_def arg_address arg_port [OF assms]
    arg_password [OF assms decimal_no_percent]
  by (rule refl)

lemma example_address: "GetLocalAddress example_platform = ''192.168.1.20''"
  by (simp add: GetLocalAddress_def example_platform_def excluded_def priority_def Let_def)

lemma example_port: "decimal (unat (serverPort example_server)) = ''4444''"
  by (simp add: example_server_def decimal.simps digit_def)

lemma example_connect_string:
  "GetConnectString example_platform example_server = ''obswebsocket|192.168.1.20:4444|secret''
   \<and> GetConnectString example_platform (example_server\<lparr>authenticationRequired := False\<rparr>) =
       ''obswebsocket|192.168.1.20:4444''"
proof -
  have a: "CHR ''%'' \<notin> set (GetLocalAddress example_platform)"
    by (simp add: example_address)
  have p: "decimal (unat (serverPort (example_server\<lparr>authenticationRequired := False\<rparr>))) = ''4444''"
    using example_port by simp
  have s: "authenticationRequired example_server" "serverPassword example_server = ''secret''"
    by (simp_all add: example_server_def)
  show ?thesis
    using GetConnectString_plain_address [OF a, of example_server]
      GetConnectString_plain_address [OF a, of "example_server\<lparr>authenticationRequired := False\<rparr>"]
    by (simp add: example_address example_port p s)
qed

lemma example_scoped_address: "GetLocalAddress example_scoped_platform = ''fec0::1%2''"
  by (simp add: GetLocalAddress_def example_scoped_platform_def example_platform_def
      excluded_def priority_def Let_def)

text \<open>
  C9 fails on the code when the address has a place marker in it. The only address of
  the platform below is the site-local \<^verbatim>\<open>fec0::1%2\<close>, which \<^verbatim>\<open>GetLocalAddress\<close>
  returns (only link-local addresses are skipped). The first \<^verbatim>\<open>arg\<close> puts it in the
  place of \<^verbatim>\<open>%1\<close>; the second \<^verbatim>\<open>arg\<close> then finds \<^verbatim>\<open>%2\<close> twice, in the address and
  in the format, and puts the port in both places. The connect string is
  \<^verbatim>\<open>obswebsocket|fec0::14444:4444|secret\<close> with authentication and
  \<^verbatim>\<open>obswebsocket|fec0::14444:4444\<close> without it, and not
  \<^verbatim>\<open>obswebsocket|fec0::1%2:4444\<close> with or without the password.
\<close>

theorem GetConnectString_scoped_address:
  "GetLocalAddress example_scoped_platform = ''fec0::1%2''
   \<and> serverPort example_server = 4444 \<and> serverPassword example_server = ''secret''
   \<and> GetConnectString example_scoped_platform example_server =
       ''obswebsocket|fec0::14444:4444|secret''
   \<and> GetConnectString example_scoped_platform
         (example_server\<lparr>authenticationRequired := False\<rparr>) =
       ''obswebsocket|fec0::14444:4444''"
proof -
  have s: "authenticationRequired example_server" "serverPassword example_server = ''secret''"
    "serverPort example_server = 4444"
    by (simp_all add: example_server_def)
  have p: "decimal (unat (serverPort (example_server\<lparr>authenticationRequired := False\<rparr>))) = ''4444''"
    using example_port by simp
  have one: "arg ''obswebsocket|%1:%2|%3'' ''fec0::1%2'' = ''obswebsocket|fec0::1%2:%2|%3''"
    "arg ''obswebsocket|%1:%2'' ''fec0::1%2'' = ''obswebsocket|fec0::1%2:%2''"
    by (simp_all add: arg_address)
  have two: "arg ''obswebsocket|fec0::1%2:%2|%3'' ''4444'' = ''obswebsocket|fec0::14444:4444|%3''"
    "arg ''obswebsocket|fec0::1%2:%2'' ''4444'' = ''obswebsocket|fec0::14444:4444''"
    by (simp_all add: arg_def digit_value_def)
  have three: "arg ''obswebsocket|fec0::14444:4444|%3'' ''secret'' =
      ''obswebsocket|fec0::14444:4444|secret''"
    by (simp add: arg_def digit_value_def)
  have a: "GetConnectString example_scoped_platform example_server =
       ''obswebsocket|fec0::14444:4444|secret''"
    unfolding GetConnectString_def example_scoped_address example_port
    by (simp only: s(1) s(2) if_True one two three)
  have b: "GetConnectString example_scoped_platform
         (example_server\<lparr>authenticationRequired := False\<rparr>) =
       ''obswebsocket|fec0::14444:4444''"
    unfolding GetConnectString_def example_scoped_address p
    by (simp add: one two)
  show ?thesis
    by (intro conjI) (rule example_scoped_address, rule s(3), rule s(2), rule a, rule b)
qed

end
